theory Spec2Isabelle
  imports Main
begin

section \<open>JavaScript values\<close>

text \<open>
  The values that travel through the data-access layer: request fields, bound statement
  parameters and result rows. A number is carried as a mathematical integer (the
  identifiers, salaries and employee counts of the application); an object is the list of
  its own enumerable properties in iteration order, which is the order \<^verbatim>\<open>Object.keys\<close> and
  \<^verbatim>\<open>Object.values\<close> both follow; a function built into the runtime is carried by its
  name.
\<close>

datatype jsval =
    JUndefined
  | JNull
  | JBool bool
  | JNum int
  | JStr string
  | JObj "(string \<times> jsval) list"
  | JFun string

type_synonym jsobject = "(string \<times> jsval) list"

text \<open>Truthiness, as \<^verbatim>\<open>if (v)\<close>, \<^verbatim>\<open>!v\<close> and \<^verbatim>\<open>a || b\<close> test it.\<close>

fun truthy :: "jsval \<Rightarrow> bool" where
  "truthy JUndefined = False"
| "truthy JNull = False"
| "truthy (JBool b) = b"
| "truthy (JNum n) = (n \<noteq> 0)"
| "truthy (JStr s) = (s \<noteq> [])"
| "truthy (JObj ps) = True"
| "truthy (JFun f) = True"

definition js_or :: "jsval \<Rightarrow> jsval \<Rightarrow> jsval" where
  "js_or a b = (if truthy a then a else b)"

text \<open>Decimal text of a number, as a template literal writes it.\<close>

definition digit_char :: "nat \<Rightarrow> char" where
  "digit_char d = ''0123456789'' ! d"

function nat_to_string :: "nat \<Rightarrow> string" where
  "nat_to_string n =
     (if n < 10 then [digit_char n]
      else nat_to_string (n div 10) @ [digit_char (n mod 10)])"
  by pat_completeness auto
termination
  by (relation "measure id") auto

declare nat_to_string.simps [simp del]

definition int_to_string :: "int \<Rightarrow> string" where
  "int_to_string i =
     (if i < 0 then ''-'' @ nat_to_string (nat (- i)) else nat_to_string (nat i))"

text \<open>String conversion of a value inside a template literal (\<^verbatim>\<open>`${v}`\<close>).\<close>

fun to_string :: "jsval \<Rightarrow> string" where
  "to_string JUndefined = ''undefined''"
| "to_string JNull = ''null''"
| "to_string (JBool b) = (if b then ''true'' else ''false'')"
| "to_string (JNum n) = int_to_string n"
| "to_string (JStr s) = s"
| "to_string (JObj ps) = ''[object Object]''"
| "to_string (JFun f) = ''function '' @ f @ ''() { [native code] }''"

text \<open>
  The members every object written as a literal inherits from \<^verbatim>\<open>Object.prototype\<close>
  (as Node.js has them): eleven built-in functions, and \<^verbatim>\<open>__proto__\<close>, which reads as
  the prototype object itself.
\<close>

definition object_prototype :: "string \<rightharpoonup> jsval" where
  "object_prototype =
     [''constructor'' \<mapsto> JFun ''Object'',
      ''__defineGetter__'' \<mapsto> JFun ''__defineGetter__'',
      ''__defineSetter__'' \<mapsto> JFun ''__defineSetter__'',
      ''hasOwnProperty'' \<mapsto> JFun ''hasOwnProperty'',
      ''__lookupGetter__'' \<mapsto> JFun ''__lookupGetter__'',
      ''__lookupSetter__'' \<mapsto> JFun ''__lookupSetter__'',
      ''isPrototypeOf'' \<mapsto> JFun ''isPrototypeOf'',
      ''propertyIsEnumerable'' \<mapsto> JFun ''propertyIsEnumerable'',
      ''toString'' \<mapsto> JFun ''toString'',
      ''valueOf'' \<mapsto> JFun ''valueOf'',
      ''__proto__'' \<mapsto> JObj [],
      ''toLocaleString'' \<mapsto> JFun ''toLocaleString'']"

text \<open>
  Property read \<^verbatim>\<open>obj[key]\<close> on an object given by the entries written in it: the
  value stored under the key; for a key the object does not have itself, the member it
  inherits under that name; and \<^verbatim>\<open>undefined\<close> when there is neither.
\<close>

definition js_get :: "(string \<rightharpoonup> jsval) \<Rightarrow> string \<Rightarrow> jsval" where
  "js_get obj key =
     (case obj key of
        Some v \<Rightarrow> v
      | None \<Rightarrow> (case object_prototype key of None \<Rightarrow> JUndefined | Some v \<Rightarrow> v))"

text \<open>\<^verbatim>\<open>Array.prototype.join\<close>.\<close>

fun join :: "string \<Rightarrow> string list \<Rightarrow> string" where
  "join sep [] = []"
| "join sep [x] = x"
| "join sep (x # y # ys) = x @ sep @ join sep (y # ys)"

text \<open>\<^verbatim>\<open>Array.prototype.map\<close> with the callback's second argument, the index.\<close>

definition map_idx :: "('a \<Rightarrow> nat \<Rightarrow> 'b) \<Rightarrow> 'a list \<Rightarrow> 'b list" where
  "map_idx f xs = map (\<lambda>(x, idx). f x idx) (zip xs [0..<length xs])"

section \<open>Errors\<close>

text \<open>
  The error classes the models throw, each with its message, and a fault raised by the
  storage layer itself, which the models let through unchanged.
\<close>

datatype error =
    BadRequestError string
  | NotFoundError string
  | UnauthorizedError string
  | StorageFault string

text \<open>The class of an error, without its message.\<close>

datatype error_class = BadRequest | NotFound | Unauthorized | Storage

fun class_of :: "error \<Rightarrow> error_class" where
  "class_of (BadRequestError msg) = BadRequest"
| "class_of (NotFoundError msg) = NotFound"
| "class_of (UnauthorizedError msg) = Unauthorized"
| "class_of (StorageFault msg) = Storage"

section \<open>The partial-update builder (helpers/sql.js)\<close>

record partial_update =
  setCols :: string
  "values" :: "jsval list"

text \<open>
  The column an external field name is written under:
  \<^verbatim>\<open>jsToSql[colName] || colName\<close>, converted to text by the template literal.
\<close>

definition column :: "(string \<rightharpoonup> jsval) \<Rightarrow> string \<Rightarrow> string" where
  "column jsToSql colName = to_string (js_or (js_get jsToSql colName) (JStr colName))"

definition assignment :: "(string \<rightharpoonup> jsval) \<Rightarrow> string \<Rightarrow> nat \<Rightarrow> string" where
  "assignment jsToSql colName idx =
     ''\"'' @ column jsToSql colName @ ''\"=$'' @ nat_to_string (idx + 1)"

definition sqlForPartialUpdate ::
  "jsobject \<Rightarrow> (string \<rightharpoonup> jsval) \<Rightarrow> error + partial_update" where
  "sqlForPartialUpdate dataToUpdate jsToSql =
     (let keys = map fst dataToUpdate in
      if length keys = 0 then Inl (BadRequestError ''No data'')
      else
        let cols = map_idx (assignment jsToSql) keys in
        Inr \<lparr> setCols = join '', '' cols, values = map snd dataToUpdate \<rparr>)"

text \<open>
  The partial-update builder as the specification words it: one assignment per entry, in
  iteration order, the position counting the entries from the given start.
\<close>

fun assignments_from :: "(string \<rightharpoonup> jsval) \<Rightarrow> nat \<Rightarrow> string list \<Rightarrow> string list" where
  "assignments_from jsToSql position [] = []"
| "assignments_from jsToSql position (name # names) =
     (''\"'' @ column jsToSql name @ ''\"=$'' @ nat_to_string position)
       # assignments_from jsToSql (Suc position) names"

text \<open>Reading a decimal numeral back, to show that a placeholder names its position.\<close>

definition digit_value :: "char \<Rightarrow> nat" where
  "digit_value c = of_char c - 48"

definition string_to_nat :: "string \<Rightarrow> nat" where
  "string_to_nat s = foldl (\<lambda>acc c. 10 * acc + digit_value c) 0 s"

section \<open>The database handle\<close>

text \<open>
  The module behind \<^verbatim>\<open>db.query(text, params)\<close> is not part of the sources, so the
  storage engine is a parameter of every model: any function from a statement text, its
  bound parameters and the engine's own state to an answer (the matching rows, or a fault
  it raises) and a new state. A statement is carried as its text, with runs of white
  space written as one blank, together with its column list read off that text: the
  select list or \<^verbatim>\<open>RETURNING\<close> list, as pairs of column expression and result name. A
  result row has exactly the result names of that list, in its order. The handle also
  keeps the statements issued so far, oldest first.
\<close>

type_synonym row = jsobject

datatype answer = Fault string | Rows "row list"

type_synonym 's engine = "string \<Rightarrow> jsval list \<Rightarrow> 's \<Rightarrow> answer \<times> 's"

record statement =
  sql :: string
  columns :: "(string \<times> string) list"

record 's db =
  store :: 's
  issued :: "(statement \<times> jsval list) list"

type_synonym ('s, 'a) action = "'s db \<Rightarrow> (error + 'a) \<times> 's db"

text \<open>\<^verbatim>\<open>obj.key\<close> on an object given by its properties.\<close>

definition get_prop :: "jsobject \<Rightarrow> string \<Rightarrow> jsval" where
  "get_prop obj key = js_get (map_of obj) key"

text \<open>\<^verbatim>\<open>delete obj.key\<close> and \<^verbatim>\<open>obj.key = v\<close>.\<close>

definition delete_prop :: "string \<Rightarrow> jsobject \<Rightarrow> jsobject" where
  "delete_prop key obj = filter (\<lambda>p. fst p \<noteq> key) obj"

definition set_prop :: "string \<Rightarrow> jsval \<Rightarrow> jsobject \<Rightarrow> jsobject" where
  "set_prop key v obj =
     (if key \<in> fst ` set obj
      then map (\<lambda>p. if fst p = key then (key, v) else p) obj
      else obj @ [(key, v)])"

text \<open>
  What a row of the storage engine holds in a column, and the result row the column list
  of a statement makes of it.
\<close>

definition column_value :: "row \<Rightarrow> string \<Rightarrow> jsval" where
  "column_value raw col = (case map_of raw col of None \<Rightarrow> JNull | Some v \<Rightarrow> v)"

definition project :: "(string \<times> string) list \<Rightarrow> row \<Rightarrow> row" where
  "project outs raw = map (\<lambda>(col, out). (out, column_value raw col)) outs"

definition db_query :: "'s engine \<Rightarrow> statement \<Rightarrow> jsval list \<Rightarrow> ('s, row list) action" where
  "db_query engine st params db =
     (case engine (sql st) params (store db) of
        (Fault msg, s') \<Rightarrow>
          (Inl (StorageFault msg), \<lparr> store = s', issued = issued db @ [(st, params)] \<rparr>)
      | (Rows raw, s') \<Rightarrow>
          (Inr (map (project (columns st)) raw),
           \<lparr> store = s', issued = issued db @ [(st, params)] \<rparr>))"

text \<open>
  Sequencing of awaited steps: a thrown error ends the function, and the handle stays as
  the failing step left it.
\<close>

definition bind :: "('s, 'a) action \<Rightarrow> ('a \<Rightarrow> ('s, 'b) action) \<Rightarrow> ('s, 'b) action" where
  "bind m f db = (case m db of (Inl e, db') \<Rightarrow> (Inl e, db') | (Inr a, db') \<Rightarrow> f a db')"

definition throw :: "error \<Rightarrow> ('s, 'a) action" where
  "throw e db = (Inl e, db)"

definition return :: "'a \<Rightarrow> ('s, 'a) action" where
  "return a db = (Inr a, db)"

text \<open>
  \<^verbatim>\<open>result.rows[0]\<close>: the first row, \<^verbatim>\<open>undefined\<close> when there is none. A row is
  an object and therefore truthy, so \<^verbatim>\<open>if (!row)\<close> asks whether the answer was empty.
\<close>

definition first_row :: "row list \<Rightarrow> jsval" where
  "first_row rows = (case rows of [] \<Rightarrow> JUndefined | r # _ \<Rightarrow> JObj r)"

text \<open>The placeholder text \<^verbatim>\<open>"$" + n\<close>.\<close>

definition placeholder :: "nat \<Rightarrow> string" where
  "placeholder n = ''$'' @ nat_to_string n"

section \<open>The Company model (unnamed/part_001)\<close>

definition company_columns :: "(string \<times> string) list" where
  "company_columns =
     [(''handle'', ''handle''), (''name'', ''name''), (''description'', ''description''),
      (''num_employees'', ''numEmployees''), (''logo_url'', ''logoUrl'')]"

definition company_duplicate_check :: statement where
  "company_duplicate_check =
     \<lparr> sql = ''SELECT handle FROM companies WHERE handle = $1'',
       columns = [(''handle'', ''handle'')] \<rparr>"

definition company_insert :: statement where
  "company_insert =
     \<lparr> sql = ''INSERT INTO companies (handle, name, description, num_employees, logo_url) VALUES ($1, $2, $3, $4, $5) RETURNING handle, name, description, num_employees AS \"numEmployees\", logo_url AS \"logoUrl\"'',
       columns = company_columns \<rparr>"

definition Company_create :: "'s engine \<Rightarrow> jsobject \<Rightarrow> ('s, jsval) action" where
  "Company_create engine data =
     bind (db_query engine company_duplicate_check [get_prop data ''handle''])
       (\<lambda>duplicateCheck.
          if truthy (first_row duplicateCheck)
          then throw (BadRequestError (''Duplicate company: '' @ to_string (get_prop data ''handle'')))
          else
            bind (db_query engine company_insert
                    [get_prop data ''handle'', get_prop data ''name'', get_prop data ''description'',
                     get_prop data ''numEmployees'', get_prop data ''logoUrl''])
              (\<lambda>result. return (first_row result)))"

text \<open>
  The two arrays a list operation fills while it looks at its criteria, with
  \<^verbatim>\<open>push\<close> on each.
\<close>

record filters =
  whereExpressions :: "string list"
  queryValues :: "jsval list"

definition push_value :: "jsval \<Rightarrow> filters \<Rightarrow> filters" where
  "push_value v f = f \<lparr> queryValues := queryValues f @ [v] \<rparr>"

definition push_expression :: "string \<Rightarrow> filters \<Rightarrow> filters" where
  "push_expression e f = f \<lparr> whereExpressions := whereExpressions f @ [e] \<rparr>"

definition where_clause :: "filters \<Rightarrow> string" where
  "where_clause f =
     (if length (whereExpressions f) > 0
      then '' WHERE '' @ join '' AND '' (whereExpressions f)
      else [])"

text \<open>
  The employee bounds reach \<^verbatim>\<open>findAll\<close> as numbers or not at all (the route applies
  unary plus to each and checks the query against the search schema), so a bound is an
  integer or absent. \<^verbatim>\<open>a > b\<close> is false when either side is \<^verbatim>\<open>undefined\<close>.
\<close>

definition js_gt :: "int option \<Rightarrow> int option \<Rightarrow> bool" where
  "js_gt a b = (case (a, b) of (Some x, Some y) \<Rightarrow> x > y | _ \<Rightarrow> False)"

definition company_filters :: "int option \<Rightarrow> int option \<Rightarrow> jsval \<Rightarrow> filters" where
  "company_filters minEmployees maxEmployees name =
     (let f0 = \<lparr> whereExpressions = [], queryValues = [] \<rparr>;
          f1 = (case minEmployees of
                  None \<Rightarrow> f0
                | Some n \<Rightarrow>
                    let f = push_value (JNum n) f0 in
                    push_expression (''num_employees >= $'' @ nat_to_string (length (queryValues f))) f);
          f2 = (case maxEmployees of
                  None \<Rightarrow> f1
                | Some n \<Rightarrow>
                    let f = push_value (JNum n) f1 in
                    push_expression (''num_employees <= $'' @ nat_to_string (length (queryValues f))) f);
          f3 = (if truthy name
                then
                  let f = push_value (JStr (''%'' @ to_string name @ ''%'')) f2 in
                  push_expression (''name ILIKE $'' @ nat_to_string (length (queryValues f))) f
                else f2)
      in f3)"

definition Company_findAll ::
  "'s engine \<Rightarrow> int option \<Rightarrow> int option \<Rightarrow> jsval \<Rightarrow> ('s, row list) action" where
  "Company_findAll engine minEmployees maxEmployees name =
     (if js_gt minEmployees maxEmployees
      then throw (BadRequestError ''Min employees cannot be greater than max employees'')
      else
        let f = company_filters minEmployees maxEmployees name;
            query = ''SELECT handle, name, description, num_employees AS \"numEmployees\", logo_url AS \"logoUrl\" FROM companies''
                      @ where_clause f @ '' ORDER BY name''
        in bind (db_query engine \<lparr> sql = query, columns = company_columns \<rparr> (queryValues f))
             (\<lambda>companiesRes. return companiesRes))"

definition company_jsToSql :: "string \<rightharpoonup> jsval" where
  "company_jsToSql =
     [''numEmployees'' \<mapsto> JStr ''num_employees'', ''logoUrl'' \<mapsto> JStr ''logo_url'']"

definition company_update_statement :: "partial_update \<Rightarrow> statement" where
  "company_update_statement r =
     (let handleVarIdx = placeholder (length (values r) + 1) in
      \<lparr> sql = ''UPDATE companies SET '' @ setCols r @ '' WHERE handle = '' @ handleVarIdx
                @ '' RETURNING handle, name, description, num_employees AS \"numEmployees\", logo_url AS \"logoUrl\"'',
        columns = company_columns \<rparr>)"

definition Company_update :: "'s engine \<Rightarrow> jsval \<Rightarrow> jsobject \<Rightarrow> ('s, row) action" where
  "Company_update engine handle data =
     (case sqlForPartialUpdate data company_jsToSql of
        Inl e \<Rightarrow> throw e
      | Inr r \<Rightarrow>
          bind (db_query engine (company_update_statement r) (values r @ [handle]))
            (\<lambda>result.
               case result of
                 [] \<Rightarrow> throw (NotFoundError (''No company: '' @ to_string handle))
               | company # _ \<Rightarrow> return company))"

section \<open>The Job model (models/job.js)\<close>

definition job_columns :: "(string \<times> string) list" where
  "job_columns =
     [(''id'', ''id''), (''title'', ''title''), (''salary'', ''salary''),
      (''equity'', ''equity''), (''company_handle'', ''companyHandle'')]"

text \<open>
  The criteria of \<^verbatim>\<open>Job.findAll\<close> are the three destructured properties of its
  argument, \<^verbatim>\<open>undefined\<close> when the argument lacks them.
\<close>

definition job_filters :: "jsval \<Rightarrow> jsval \<Rightarrow> jsval \<Rightarrow> filters" where
  "job_filters minSalary hasEquity title =
     (let f0 = \<lparr> whereExpressions = [], queryValues = [] \<rparr>;
          f1 = (if minSalary \<noteq> JUndefined
                then
                  let f = push_value minSalary f0 in
                  push_expression (''salary >= $'' @ nat_to_string (length (queryValues f))) f
                else f0);
          f2 = (if hasEquity = JBool True
                then push_expression ''equity > 0'' f1
                else f1);
          f3 = (if truthy title
                then
                  let f = push_value (JStr (''%'' @ to_string title @ ''%'')) f2 in
                  push_expression (''title ILIKE $'' @ nat_to_string (length (queryValues f))) f
                else f2)
      in f3)"

definition Job_findAll :: "'s engine \<Rightarrow> jsval \<Rightarrow> jsval \<Rightarrow> jsval \<Rightarrow> ('s, row list) action" where
  "Job_findAll engine minSalary hasEquity title =
     (let f = job_filters minSalary hasEquity title;
          query = ''SELECT j.id, j.title, j.salary, j.equity, j.company_handle AS \"companyHandle\", c.name AS \"companyName\" FROM jobs j LEFT JOIN companies AS c ON c.handle = j.company_handle''
                    @ where_clause f @ '' ORDER BY id''
      in bind (db_query engine
                 \<lparr> sql = query,
                   columns = [(''j.id'', ''id''), (''j.title'', ''title''), (''j.salary'', ''salary''),
                              (''j.equity'', ''equity''), (''j.company_handle'', ''companyHandle''),
                              (''c.name'', ''companyName'')] \<rparr>
                 (queryValues f))
           (\<lambda>jobsRes. return jobsRes))"

definition job_select :: statement where
  "job_select =
     \<lparr> sql = ''SELECT id, title, salary, equity, company_handle AS \"companyHandle\" FROM jobs WHERE id = $1'',
       columns = job_columns \<rparr>"

definition job_company_select :: statement where
  "job_company_select =
     \<lparr> sql = ''SELECT handle, name, description, num_employees AS \"numEmployees\", logo_url AS \"logoUrl\" FROM companies WHERE handle = $1'',
       columns = company_columns \<rparr>"

definition Job_get :: "'s engine \<Rightarrow> jsval \<Rightarrow> ('s, row) action" where
  "Job_get engine id' =
     bind (db_query engine job_select [id'])
       (\<lambda>jobRes.
          case jobRes of
            [] \<Rightarrow> throw (NotFoundError (''No job: '' @ to_string id'))
          | job # _ \<Rightarrow>
              bind (db_query engine job_company_select [get_prop job ''companyHandle''])
                (\<lambda>companiesRes.
                   return (set_prop ''company'' (first_row companiesRes)
                             (delete_prop ''companyHandle'' job))))"

definition job_update_statement :: "partial_update \<Rightarrow> statement" where
  "job_update_statement r =
     (let idVarIdx = placeholder (length (values r) + 1) in
      \<lparr> sql = ''UPDATE jobs SET '' @ setCols r @ '' WHERE id = '' @ idVarIdx
                @ '' RETURNING id, title, salary, equity, company_handle AS \"companyHandle\"'',
        columns = job_columns \<rparr>)"

definition Job_update :: "'s engine \<Rightarrow> jsval \<Rightarrow> jsobject \<Rightarrow> ('s, row) action" where
  "Job_update engine id' data =
     (case sqlForPartialUpdate data Map.empty of
        Inl e \<Rightarrow> throw e
      | Inr r \<Rightarrow>
          bind (db_query engine (job_update_statement r) (values r @ [id']))
            (\<lambda>result.
               case result of
                 [] \<Rightarrow> throw (NotFoundError (''No job: '' @ to_string id'))
               | job # _ \<Rightarrow> return job))"

section \<open>The User model (unnamed/part_000)\<close>

text \<open>
  The password hashing library is outside the sources: \<open>hash\<close> stands for
  \<^verbatim>\<open>bcrypt.hash\<close> at the configured work factor, and \<open>compare\<close> for the test
  \<^verbatim>\<open>(await bcrypt.compare(password, stored)) === true\<close>.
\<close>

definition user_columns :: "(string \<times> string) list" where
  "user_columns =
     [(''username'', ''username''), (''first_name'', ''firstName''),
      (''last_name'', ''lastName''), (''email'', ''email''), (''is_admin'', ''isAdmin'')]"

definition user_authenticate_select :: statement where
  "user_authenticate_select =
     \<lparr> sql = ''SELECT username, password, first_name AS \"firstName\", last_name AS \"lastName\", email, is_admin AS \"isAdmin\" FROM users WHERE username = $1'',
       columns = [(''username'', ''username''), (''password'', ''password''),
                  (''first_name'', ''firstName''), (''last_name'', ''lastName''),
                  (''email'', ''email''), (''is_admin'', ''isAdmin'')] \<rparr>"

definition User_authenticate ::
  "'s engine \<Rightarrow> (jsval \<Rightarrow> jsval \<Rightarrow> bool) \<Rightarrow> jsval \<Rightarrow> jsval \<Rightarrow> ('s, row) action" where
  "User_authenticate engine compare username password =
     bind (db_query engine user_authenticate_select [username])
       (\<lambda>result.
          case result of
            [] \<Rightarrow> throw (UnauthorizedError ''Invalid username/password'')
          | user # _ \<Rightarrow>
              if compare password (get_prop user ''password'')
              then return (delete_prop ''password'' user)
              else throw (UnauthorizedError ''Invalid username/password''))"

definition user_duplicate_check :: statement where
  "user_duplicate_check =
     \<lparr> sql = ''SELECT username FROM users WHERE username = $1'',
       columns = [(''username'', ''username'')] \<rparr>"

definition user_insert :: statement where
  "user_insert =
     \<lparr> sql = ''INSERT INTO users (username, password, first_name, last_name, email, is_admin) VALUES ($1, $2, $3, $4, $5, $6) RETURNING username, first_name AS \"firstName\", last_name AS \"lastName\", email, is_admin AS \"isAdmin\"'',
       columns = user_columns \<rparr>"

definition User_register :: "'s engine \<Rightarrow> (jsval \<Rightarrow> jsval) \<Rightarrow> jsobject \<Rightarrow> ('s, jsval) action" where
  "User_register engine hash data =
     bind (db_query engine user_duplicate_check [get_prop data ''username''])
       (\<lambda>duplicateCheck.
          if truthy (first_row duplicateCheck)
          then throw (BadRequestError (''Duplicate username: '' @ to_string (get_prop data ''username'')))
          else
            let hashedPassword = hash (get_prop data ''password'') in
            bind (db_query engine user_insert
                    [get_prop data ''username'', hashedPassword, get_prop data ''firstName'',
                     get_prop data ''lastName'', get_prop data ''email'', get_prop data ''isAdmin''])
              (\<lambda>result. return (first_row result)))"

definition user_jsToSql :: "string \<rightharpoonup> jsval" where
  "user_jsToSql =
     [''firstName'' \<mapsto> JStr ''first_name'', ''lastName'' \<mapsto> JStr ''last_name'',
      ''isAdmin'' \<mapsto> JStr ''is_admin'']"

definition user_update_statement :: "partial_update \<Rightarrow> statement" where
  "user_update_statement r =
     (let usernameVarIdx = placeholder (length (values r) + 1) in
      \<lparr> sql = ''UPDATE users SET '' @ setCols r @ '' WHERE username = '' @ usernameVarIdx
                @ '' RETURNING username, first_name AS \"firstName\", last_name AS \"lastName\", email, is_admin AS \"isAdmin\"'',
        columns = user_columns \<rparr>)"

definition hash_password :: "(jsval \<Rightarrow> jsval) \<Rightarrow> jsobject \<Rightarrow> jsobject" where
  "hash_password hash data =
     (if truthy (get_prop data ''password'')
      then set_prop ''password'' (hash (get_prop data ''password'')) data
      else data)"

definition User_update ::
  "'s engine \<Rightarrow> (jsval \<Rightarrow> jsval) \<Rightarrow> jsval \<Rightarrow> jsobject \<Rightarrow> ('s, row) action" where
  "User_update engine hash username data0 =
     (let data = hash_password hash data0 in
      case sqlForPartialUpdate data user_jsToSql of
        Inl e \<Rightarrow> throw e
      | Inr r \<Rightarrow>
          bind (db_query engine (user_update_statement r) (values r @ [username]))
            (\<lambda>result.
               case result of
                 [] \<Rightarrow> throw (NotFoundError (''No user: '' @ to_string username))
               | user # _ \<Rightarrow> return (delete_prop ''password'' user)))"

definition apply_job_check :: statement where
  "apply_job_check =
     \<lparr> sql = ''SELECT id FROM jobs WHERE id = $1'', columns = [(''id'', ''id'')] \<rparr>"

definition apply_user_check :: statement where
  "apply_user_check =
     \<lparr> sql = ''SELECT username FROM users WHERE username = $1'',
       columns = [(''username'', ''username'')] \<rparr>"

definition apply_insert :: statement where
  "apply_insert =
     \<lparr> sql = ''INSERT INTO applications (job_id, username) VALUES ($1, $2)'', columns = [] \<rparr>"

definition User_applyToJob :: "'s engine \<Rightarrow> jsval \<Rightarrow> jsval \<Rightarrow> ('s, unit) action" where
  "User_applyToJob engine username jobId =
     bind (db_query engine apply_job_check [jobId])
       (\<lambda>preCheck.
          case preCheck of
            [] \<Rightarrow> throw (NotFoundError (''No job: '' @ to_string jobId))
          | job # _ \<Rightarrow>
              bind (db_query engine apply_user_check [username])
                (\<lambda>preCheck2.
                   case preCheck2 of
                     [] \<Rightarrow> throw (NotFoundError (''No username: '' @ to_string username))
                   | user # _ \<Rightarrow>
                       bind (db_query engine apply_insert [jobId, username])
                         (\<lambda>inserted. return ())))"

section \<open>Auxiliary notions for the properties\<close>

text \<open>Whether a returned value is an object that carries the given field.\<close>

fun has_field :: "jsval \<Rightarrow> string \<Rightarrow> bool" where
  "has_field (JObj ps) key = (key \<in> fst ` set ps)"
| "has_field v key = False"

text \<open>
  A storage engine for worked examples: it answers a statement text with the rows listed
  for it, any other text with the fallback rows, and counts the statements it has run.
\<close>

definition sample_engine :: "(string \<times> row list) list \<Rightarrow> row list \<Rightarrow> nat engine" where
  "sample_engine answers fallback q params s =
     (Rows (case map_of answers q of None \<Rightarrow> fallback | Some rows \<Rightarrow> rows), Suc s)"

text \<open>Rows as a storage engine holds them, under the column names of the tables.\<close>

definition sample_user :: row where
  "sample_user =
     [(''username'', JStr ''bob''), (''password'', JStr ''hashed''),
      (''first_name'', JStr ''Bob''), (''last_name'', JStr ''Lee''),
      (''email'', JStr ''bob@example.org''), (''is_admin'', JBool False)]"

definition sample_job :: row where
  "sample_job =
     [(''id'', JNum 7), (''title'', JStr ''Clerk''), (''salary'', JNum 40000),
      (''equity'', JStr ''0''), (''company_handle'', JStr ''acme'')]"

definition sample_company :: row where
  "sample_company =
     [(''handle'', JStr ''acme''), (''name'', JStr ''Acme''), (''description'', JNull),
      (''num_employees'', JNum 10), (''logo_url'', JNull)]"

section \<open>Properties of the partial-update builder\<close>

lemma length_map_idx [simp]: "length (map_idx f xs) = length xs"
  by (simp add: map_idx_def)

lemma nth_map_idx [simp]: "i < length xs \<Longrightarrow> map_idx f xs ! i = f (xs ! i) i"
  by (simp add: map_idx_def)

lemma map_idx_Cons: "map_idx f (x # xs) = f x 0 # map_idx (\<lambda>y i. f y (Suc i)) xs"
proof -
  have "[0..<Suc (length xs)] = 0 # map Suc [0..<length xs]"
    by (simp add: upt_conv_Cons map_Suc_upt del: upt_Suc)
  then show ?thesis
    by (simp add: map_idx_def zip_map2 case_prod_unfold del: upt_Suc)
qed

lemma digit_value_digit_char: "d < 10 \<Longrightarrow> digit_value (digit_char d) = d"
proof -
  assume "d < 10"
  then have "d = 0 \<or> d = 1 \<or> d = 2 \<or> d = 3 \<or> d = 4 \<or> d = 5 \<or> d = 6
    \<or> d = 7 \<or> d = 8 \<or> d = 9" by presburger
  then show ?thesis
    by (elim disjE) (simp_all add: digit_value_def digit_char_def)
qed

lemma string_to_nat_snoc: "string_to_nat (s @ [c]) = 10 * string_to_nat s + digit_value c"
  by (simp add: string_to_nat_def)

text \<open>The decimal text of a position reads back as that position.\<close>

lemma string_to_nat_nat_to_string: "string_to_nat (nat_to_string n) = n"
proof (induction n rule: nat_to_string.induct)
  case (1 n)
  show ?case
  proof (cases "n < 10")
    case True
    then show ?thesis
      by (simp add: nat_to_string.simps [of n] string_to_nat_def digit_value_digit_char)
  next
    case False
    with 1 show ?thesis
      by (simp add: nat_to_string.simps [of n] string_to_nat_snoc digit_value_digit_char)
  qed
qed

lemma nat_to_string_inj: "nat_to_string m = nat_to_string n \<Longrightarrow> m = n"
  by (metis string_to_nat_nat_to_string)

text \<open>
  The indexed map of the source and the counting recursion of the specification build
  the same list of assignments.
\<close>

lemma map_idx_assignments_from:
  "map_idx (\<lambda>colName idx. assignment jsToSql colName (idx + k)) names =
     assignments_from jsToSql (Suc k) names"
proof (induction names arbitrary: k)
  case Nil
  show ?case by (simp add: map_idx_def)
next
  case (Cons n names)
  have "map_idx (\<lambda>y i. assignment jsToSql y (Suc i + k)) names =
        assignments_from jsToSql (Suc (Suc k)) names"
    using Cons.IH [of "Suc k"] by simp
  then show ?case
    by (simp add: map_idx_Cons assignment_def)
qed

lemma length_assignments_from [simp]:
  "length (assignments_from jsToSql position names) = length names"
  by (induction names arbitrary: position) simp_all

lemma nth_assignments_from:
  "i < length names \<Longrightarrow>
   assignments_from jsToSql position names ! i =
     ''\"'' @ column jsToSql (names ! i) @ ''\"=$'' @ nat_to_string (position + i)"
proof (induction names arbitrary: position i)
  case Nil
  then show ?case by simp
next
  case (Cons n names)
  then show ?case by (cases i) simp_all
qed

lemma sqlForPartialUpdate_nonempty:
  "dataToUpdate \<noteq> [] \<Longrightarrow>
   sqlForPartialUpdate dataToUpdate jsToSql =
     Inr \<lparr> setCols = join '', '' (assignments_from jsToSql 1 (map fst dataToUpdate)),
           values = map snd dataToUpdate \<rparr>"
  using map_idx_assignments_from [of jsToSql 0 "map fst dataToUpdate"]
  by (simp add: sqlForPartialUpdate_def)

text \<open>
  C1. For a payload with at least one entry and any mapping table,
  \<open>sqlForPartialUpdate\<close> succeeds; its fragment is the list of assignments joined with
  a comma and a blank; there is one assignment per entry; the assignment at index \<open>i\<close>
  is the mapped column of the \<open>i\<close>-th entry in double quotes, then \<open>=$\<close> and the decimal
  text of \<open>i + 1\<close>; the values are the entries' values in the same order. No value
  enters the fragment: every payload with the same keys in the same order, whatever its
  values, gets the same fragment.
\<close>

theorem sqlForPartialUpdate_assignments:
  assumes "dataToUpdate \<noteq> []"
  shows "sqlForPartialUpdate dataToUpdate jsToSql =
       Inr \<lparr> setCols = join '', '' (assignments_from jsToSql 1 (map fst dataToUpdate)),
             values = map snd dataToUpdate \<rparr>
   \<and> length (assignments_from jsToSql 1 (map fst dataToUpdate)) = length dataToUpdate
   \<and> (\<forall>i < length dataToUpdate.
         assignments_from jsToSql 1 (map fst dataToUpdate) ! i =
           ''\"'' @ column jsToSql (fst (dataToUpdate ! i)) @ ''\"=$'' @ nat_to_string (i + 1))
   \<and> (\<forall>other. map fst other = map fst dataToUpdate \<longrightarrow>
         sqlForPartialUpdate other jsToSql =
           Inr \<lparr> setCols = join '', '' (assignments_from jsToSql 1 (map fst dataToUpdate)),
                 values = map snd other \<rparr>)"
proof (intro conjI allI impI)
  show "sqlForPartialUpdate dataToUpdate jsToSql =
       Inr \<lparr> setCols = join '', '' (assignments_from jsToSql 1 (map fst dataToUpdate)),
             values = map snd dataToUpdate \<rparr>"
    using assms by (rule sqlForPartialUpdate_nonempty)
next
  show "length (assignments_from jsToSql 1 (map fst dataToUpdate)) = length dataToUpdate"
    by simp
next
  fix i assume "i < length dataToUpdate"
  then show "assignments_from jsToSql 1 (map fst dataToUpdate) ! i =
           ''\"'' @ column jsToSql (fst (dataToUpdate ! i)) @ ''\"=$'' @ nat_to_string (i + 1)"
    by (simp add: nth_assignments_from)
next
  fix other :: jsobject
  assume k: "map fst other = map fst dataToUpdate"
  with assms have "other \<noteq> []" by auto
  then show "sqlForPartialUpdate other jsToSql =
           Inr \<lparr> setCols = join '', '' (assignments_from jsToSql 1 (map fst dataToUpdate)),
                 values = map snd other \<rparr>"
    using sqlForPartialUpdate_nonempty [of other jsToSql] k by simp
qed

text \<open>
  The second test of the repository's suite (\<^verbatim>\<open>works: 2 items\<close>), through the theorem.
\<close>

theorem sqlForPartialUpdate_assignments_witness:
  "[(''f1'', JStr ''v1''), (''jsF2'', JStr ''v2'')] \<noteq> ([] :: jsobject)
   \<and> sqlForPartialUpdate [(''f1'', JStr ''v1''), (''jsF2'', JStr ''v2'')]
         [''jsF2'' \<mapsto> JStr ''f2'']
       = Inr \<lparr> setCols = ''\"f1\"=$1, \"f2\"=$2'', values = [JStr ''v1'', JStr ''v2''] \<rparr>"
  using sqlForPartialUpdate_assignments
    [of "[(''f1'', JStr ''v1''), (''jsF2'', JStr ''v2'')]" "[''jsF2'' \<mapsto> JStr ''f2'']"]
  by (simp add: column_def js_or_def js_get_def object_prototype_def nat_to_string.simps
        digit_char_def)

text \<open>
  C3. For every mapping table, \<open>sqlForPartialUpdate\<close> on a payload with no entry fails
  with \<open>BadRequestError\<close> and returns no fragment; each update that calls it with such a
  payload fails with that error and leaves the database handle as it was, no statement
  issued.
\<close>

theorem sqlForPartialUpdate_empty:
  "sqlForPartialUpdate [] jsToSql = Inl (BadRequestError ''No data'')
   \<and> Job_update engine id' [] db = (Inl (BadRequestError ''No data''), db)
   \<and> Company_update engine handle [] db = (Inl (BadRequestError ''No data''), db)
   \<and> User_update engine hash username [] db = (Inl (BadRequestError ''No data''), db)"
  by (simp add: sqlForPartialUpdate_def Job_update_def Company_update_def User_update_def
        hash_password_def get_prop_def js_get_def object_prototype_def throw_def)

text \<open>
  C4, as amended. When the table has the field name as a key, the column written is the
  table's value, as text, if that value is truthy (for a string: not empty), and the
  field name itself if the value is falsy. When the table has no such key and the name
  is not that of a member every object inherits, the column written is the field name
  itself.
\<close>

theorem column_lookup:
  "(jsToSql colName = Some v \<longrightarrow>
      column jsToSql colName = (if truthy v then to_string v else colName))
   \<and> (jsToSql colName = None \<and> object_prototype colName = None \<longrightarrow>
      column jsToSql colName = colName)"
  by (simp add: column_def js_or_def js_get_def)

text \<open>
  The tables of the user and company models at a mapped name, at a name they do not map,
  and a table that maps a name to the empty string.
\<close>

theorem column_lookup_witness:
  "column [''firstName'' \<mapsto> JStr ''first_name'', ''lastName'' \<mapsto> JStr ''last_name'',
           ''isAdmin'' \<mapsto> JStr ''is_admin''] ''lastName'' = ''last_name''
   \<and> column [''numEmployees'' \<mapsto> JStr ''num_employees'', ''logoUrl'' \<mapsto> JStr ''logo_url'']
        ''description'' = ''description''
   \<and> column [''logoUrl'' \<mapsto> JStr ''''] ''logoUrl'' = ''logoUrl''"
proof -
  have p: "object_prototype ''description'' = None"
    by (simp add: object_prototype_def)
  have 1: "column [''firstName'' \<mapsto> JStr ''first_name'', ''lastName'' \<mapsto> JStr ''last_name'',
           ''isAdmin'' \<mapsto> JStr ''is_admin''] ''lastName'' = ''last_name''"
    using column_lookup
      [where jsToSql = "[''firstName'' \<mapsto> JStr ''first_name'', ''lastName'' \<mapsto> JStr ''last_name'',
           ''isAdmin'' \<mapsto> JStr ''is_admin'']" and colName = "''lastName''"
         and v = "JStr ''last_name''"]
    by simp
  have 2: "column [''numEmployees'' \<mapsto> JStr ''num_employees'', ''logoUrl'' \<mapsto> JStr ''logo_url'']
        ''description'' = ''description''"
    using p column_lookup
      [where jsToSql = "[''numEmployees'' \<mapsto> JStr ''num_employees'', ''logoUrl'' \<mapsto> JStr ''logo_url'']"
         and colName = "''description''"]
    by simp
  have 3: "column [''logoUrl'' \<mapsto> JStr ''''] ''logoUrl'' = ''logoUrl''"
    using column_lookup
      [where jsToSql = "[''logoUrl'' \<mapsto> JStr '''']" and colName = "''logoUrl''"
         and v = "JStr ''''"]
    by simp
  from 1 2 3 show ?thesis by blast
qed

text \<open>
  C4 as stated fails in two ways. Where the table maps a field name to the empty string,
  the name is a key of the table and the column written is the field name, not the
  table's value. Where the field name is that of an inherited member, such as
  \<open>toString\<close>, and the table (here the empty one \<open>Job.update\<close> passes) has no such key,
  the column written is the text of that member, not the field name.
\<close>

theorem column_lookup_counterexample:
  "[''logoUrl'' \<mapsto> JStr ''''] ''logoUrl'' = Some (JStr '''')
   \<and> column [''logoUrl'' \<mapsto> JStr ''''] ''logoUrl'' = ''logoUrl''
   \<and> column [''logoUrl'' \<mapsto> JStr ''''] ''logoUrl'' \<noteq> to_string (JStr '''')
   \<and> (Map.empty :: string \<rightharpoonup> jsval) ''toString'' = None
   \<and> column Map.empty ''toString'' = ''function toString() { [native code] }''
   \<and> column Map.empty ''toString'' \<noteq> ''toString''"
  by (simp add: column_def js_or_def js_get_def object_prototype_def)

text \<open>
  What the builder writes for a field named after an inherited member, under any table
  without that key: the text of the member.
\<close>

lemma column_inherited:
  "jsToSql colName = None \<Longrightarrow> object_prototype colName = Some v \<Longrightarrow>
   column jsToSql colName = to_string v"
proof -
  assume a: "jsToSql colName = None" and b: "object_prototype colName = Some v"
  have "truthy v"
    using b by (auto simp: object_prototype_def split: if_splits)
  with a b show ?thesis
    by (simp add: column_def js_or_def js_get_def)
qed

lemma sqlForPartialUpdate_inherited_name:
  "sqlForPartialUpdate [(''toString'', JStr ''x'')] Map.empty =
     Inr \<lparr> setCols = ''\"function toString() { [native code] }\"=$1'', values = [JStr ''x''] \<rparr>"
  by (simp add: sqlForPartialUpdate_def map_idx_def assignment_def column_def js_or_def
        js_get_def object_prototype_def nat_to_string.simps digit_char_def)

section \<open>Properties of the database handle\<close>

lemma nat_to_string_1 [simp]: "nat_to_string (Suc 0) = ''1''"
  by (simp add: nat_to_string.simps digit_char_def)

lemma nat_to_string_2 [simp]: "nat_to_string (Suc (Suc 0)) = ''2''"
  by (simp add: nat_to_string.simps digit_char_def)

lemma truthy_first_row [simp]: "truthy (first_row rows) \<longleftrightarrow> rows \<noteq> []"
  by (cases rows) (simp_all add: first_row_def)

lemma db_query_Rows:
  "engine (sql st) params (store db) = (Rows raw, s') \<Longrightarrow>
   db_query engine st params db =
     (Inr (map (project (columns st)) raw),
      \<lparr> store = s', issued = issued db @ [(st, params)] \<rparr>)"
  by (simp add: db_query_def)

lemma db_query_fst:
  "fst (db_query engine st params db) =
     (case fst (engine (sql st) params (store db)) of
        Fault msg \<Rightarrow> Inl (StorageFault msg)
      | Rows raw \<Rightarrow> Inr (map (project (columns st)) raw))"
  by (simp add: db_query_def split: prod.split answer.split)

lemma engine_pair: "fst (e::answer \<times> 's) = a \<Longrightarrow> e = (a, snd e)"
  by (cases e) simp

lemma map_fst_project [simp]: "map fst (project cols raw) = map snd cols"
  by (simp add: project_def case_prod_unfold)

lemma delete_prop_absent [simp]: "key \<notin> fst ` set (delete_prop key obj)"
  by (auto simp: delete_prop_def)

lemma set_prop_nonempty: "data \<noteq> [] \<Longrightarrow> set_prop key v data \<noteq> []"
  by (simp add: set_prop_def)

lemma hash_password_nonempty: "data \<noteq> [] \<Longrightarrow> hash_password hash data \<noteq> []"
  by (simp add: hash_password_def set_prop_nonempty)

lemma map_fst_set_prop:
  "map fst (set_prop key v obj) =
     (if key \<in> fst ` set obj then map fst obj else map fst obj @ [key])"
  by (induction obj) (auto simp: set_prop_def)

lemma set_prop_keys:
  "fst ` set (set_prop key v obj) = insert key (fst ` set obj)"
  using arg_cong [OF map_fst_set_prop, of set key v obj]
  by (auto split: if_splits)

lemma has_field_first_row_project:
  "has_field (first_row (map (project cols) raw)) key \<Longrightarrow> key \<in> snd ` set cols"
  by (cases raw) (force simp: first_row_def project_def)+

text \<open>One statement, then \<open>NotFoundError\<close> on an empty answer: the tail of every update.\<close>

lemma update_tail:
  "issued (snd (bind (db_query engine st ps)
       (\<lambda>result. case result of [] \<Rightarrow> throw (NotFoundError m) | x # xs \<Rightarrow> return (g x)) db))
     = issued db @ [(st, ps)]
   \<and> ((\<exists>msg. fst (bind (db_query engine st ps)
       (\<lambda>result. case result of [] \<Rightarrow> throw (NotFoundError m) | x # xs \<Rightarrow> return (g x)) db)
         = Inl (NotFoundError msg))
      \<longleftrightarrow> fst (engine (sql st) ps (store db)) = Rows [])"
  by (auto simp: bind_def db_query_def throw_def return_def
        split: prod.split answer.split list.split)

lemma Job_get_result:
  "Job_get engine id' db = (Inr job, db') \<Longrightarrow>
   \<exists>v r. job = set_prop ''company'' v (delete_prop ''companyHandle'' r)"
  by (auto simp: Job_get_def bind_def throw_def return_def
        split: prod.splits list.splits sum.splits)

section \<open>Creating a company or a user under an identity already taken\<close>

text \<open>
  C2, as amended. When the existence probe of \<open>Company.create\<close> (on the handle) or of
  \<open>User.register\<close> (on the username) finds a row, the operation fails with
  \<open>BadRequestError\<close>, the class the source also raises for bad input, with the message
  \<open>Duplicate company: ...\<close> or \<open>Duplicate username: ...\<close>, and the probe is the only
  statement it issues: no \<open>INSERT\<close> reaches the storage engine, whose state is as the
  probe left it.
\<close>

theorem create_duplicate_bad_request:
  "(fst (engine ''SELECT handle FROM companies WHERE handle = $1'' [get_prop company ''handle''] (store db))
      = Rows (found # rest) \<longrightarrow>
    Company_create engine company db =
      (Inl (BadRequestError (''Duplicate company: '' @ to_string (get_prop company ''handle''))),
       \<lparr> store = snd (engine ''SELECT handle FROM companies WHERE handle = $1'' [get_prop company ''handle''] (store db)),
         issued = issued db @ [(\<lparr> sql = ''SELECT handle FROM companies WHERE handle = $1'',
                columns = [(''handle'', ''handle'')] \<rparr>,
              [get_prop company ''handle''])] \<rparr>))
   \<and> (fst (engine ''SELECT username FROM users WHERE username = $1'' [get_prop user ''username''] (store db))
      = Rows (taken # others) \<longrightarrow>
    User_register engine hash user db =
      (Inl (BadRequestError (''Duplicate username: '' @ to_string (get_prop user ''username''))),
       \<lparr> store = snd (engine ''SELECT username FROM users WHERE username = $1'' [get_prop user ''username''] (store db)),
         issued = issued db @ [(\<lparr> sql = ''SELECT username FROM users WHERE username = $1'',
                columns = [(''username'', ''username'')] \<rparr>,
              [get_prop user ''username''])] \<rparr>))"
proof (intro conjI impI)
  assume a: "fst (engine ''SELECT handle FROM companies WHERE handle = $1'' [get_prop company ''handle''] (store db))
      = Rows (found # rest)"
  obtain s' where "engine ''SELECT handle FROM companies WHERE handle = $1'' [get_prop company ''handle''] (store db)
      = (Rows (found # rest), s')"
    using a by (cases "engine ''SELECT handle FROM companies WHERE handle = $1'' [get_prop company ''handle''] (store db)") simp
  then show "Company_create engine company db =
      (Inl (BadRequestError (''Duplicate company: '' @ to_string (get_prop company ''handle''))),
       \<lparr> store = snd (engine ''SELECT handle FROM companies WHERE handle = $1'' [get_prop company ''handle''] (store db)),
         issued = issued db @ [(\<lparr> sql = ''SELECT handle FROM companies WHERE handle = $1'',
                columns = [(''handle'', ''handle'')] \<rparr>,
              [get_prop company ''handle''])] \<rparr>)"
    by (simp add: Company_create_def bind_def throw_def db_query_def company_duplicate_check_def)
next
  assume a: "fst (engine ''SELECT username FROM users WHERE username = $1'' [get_prop user ''username''] (store db))
      = Rows (taken # others)"
  obtain s' where "engine ''SELECT username FROM users WHERE username = $1'' [get_prop user ''username''] (store db)
      = (Rows (taken # others), s')"
    using a by (cases "engine ''SELECT username FROM users WHERE username = $1'' [get_prop user ''username''] (store db)") simp
  then show "User_register engine hash user db =
      (Inl (BadRequestError (''Duplicate username: '' @ to_string (get_prop user ''username''))),
       \<lparr> store = snd (engine ''SELECT username FROM users WHERE username = $1'' [get_prop user ''username''] (store db)),
         issued = issued db @ [(\<lparr> sql = ''SELECT username FROM users WHERE username = $1'',
                columns = [(''username'', ''username'')] \<rparr>,
              [get_prop user ''username''])] \<rparr>)"
    by (simp add: User_register_def bind_def throw_def db_query_def user_duplicate_check_def)
qed

section \<open>Listing with filters\<close>

text \<open>
  C5. When both employee bounds are given and the minimum is greater than the maximum,
  \<open>Company.findAll\<close> fails with \<open>BadRequestError\<close> and hands the database handle
  back as it received it: no statement has been issued, and no filter has been built.
\<close>

theorem Company_findAll_inconsistent_range:
  assumes "minEmployees > maxEmployees"
  shows "Company_findAll engine (Some minEmployees) (Some maxEmployees) name db =
           (Inl (BadRequestError ''Min employees cannot be greater than max employees''), db)"
  using assms by (simp add: Company_findAll_def js_gt_def throw_def)

theorem Company_findAll_inconsistent_range_witness:
  "(5::int) > 3 \<and>
   Company_findAll (sample_engine [] []) (Some 5) (Some 3) (JStr ''net'')
       \<lparr> store = 0, issued = [] \<rparr>
     = (Inl (BadRequestError ''Min employees cannot be greater than max employees''),
        \<lparr> store = 0, issued = [] \<rparr>)"
  using Company_findAll_inconsistent_range
    [of 3 5 "sample_engine [] []" "JStr ''net''" "\<lparr> store = 0, issued = [] \<rparr>"]
  by simp

text \<open>
  C6, as amended. \<open>minSalary\<close>, when it is not \<open>undefined\<close>, appends one predicate and
  one parameter (itself). \<open>hasEquity\<close> appends the predicate \<open>equity > 0\<close>, with no
  parameter, when it is exactly \<open>true\<close>, and nothing otherwise. \<open>title\<close> appends one
  predicate and one parameter (the title between percent signs) when it is truthy, and
  nothing otherwise. The predicates and parameters stand in that order, and a placeholder
  carries the number of parameters pushed so far.
\<close>

theorem job_filters_predicates:
  "whereExpressions (job_filters minSalary hasEquity title) =
     (if minSalary \<noteq> JUndefined then [''salary >= $1''] else [])
     @ (if hasEquity = JBool True then [''equity > 0''] else [])
     @ (if truthy title
        then [''title ILIKE $'' @ (if minSalary \<noteq> JUndefined then ''2'' else ''1'')]
        else [])
   \<and> queryValues (job_filters minSalary hasEquity title) =
     (if minSalary \<noteq> JUndefined then [minSalary] else [])
     @ (if truthy title then [JStr (''%'' @ to_string title @ ''%'')] else [])"
  by (simp add: job_filters_def push_value_def push_expression_def Let_def)

text \<open>
  C6 as stated fails on a key that is present and not \<open>undefined\<close> but appends
  nothing: \<open>hasEquity\<close> given as \<open>false\<close> (what the route passes whenever the query
  string does not say \<open>true\<close>), and \<open>title\<close> given as the empty string.
\<close>

theorem job_filters_counterexample:
  "JBool False \<noteq> JUndefined
   \<and> whereExpressions (job_filters JUndefined (JBool False) JUndefined) = []
   \<and> JStr '''' \<noteq> JUndefined
   \<and> whereExpressions (job_filters JUndefined JUndefined (JStr '''')) = []"
  by (simp add: job_filters_def push_value_def push_expression_def Let_def)

text \<open>The parameters \<open>Job.findAll\<close> binds are the ones the filters collected.\<close>

lemma Job_findAll_parameters:
  "map snd (issued (snd (Job_findAll engine minSalary hasEquity title db))) =
     map snd (issued db) @ [queryValues (job_filters minSalary hasEquity title)]"
  by (simp add: Job_findAll_def Let_def bind_def return_def db_query_def
        split: prod.split answer.split)

section \<open>Applying to a job\<close>

text \<open>The three steps of \<open>User.applyToJob\<close>, by the statements the model names.\<close>

lemma applyToJob_steps:
  "(fst (engine (sql apply_job_check) [jobId] (store db)) = Rows [] \<longrightarrow>
      User_applyToJob engine username jobId db =
        (Inl (NotFoundError (''No job: '' @ to_string jobId)),
         \<lparr> store = snd (engine (sql apply_job_check) [jobId] (store db)),
           issued = issued db @ [(apply_job_check, [jobId])] \<rparr>))
   \<and> (let s1 = snd (engine (sql apply_job_check) [jobId] (store db)) in
        fst (engine (sql apply_job_check) [jobId] (store db)) = Rows (j # js)
        \<and> fst (engine (sql apply_user_check) [username] s1) = Rows [] \<longrightarrow>
      User_applyToJob engine username jobId db =
        (Inl (NotFoundError (''No username: '' @ to_string username)),
         \<lparr> store = snd (engine (sql apply_user_check) [username] s1),
           issued = issued db @ [(apply_job_check, [jobId]), (apply_user_check, [username])] \<rparr>))
   \<and> (let s1 = snd (engine (sql apply_job_check) [jobId] (store db));
            s2 = snd (engine (sql apply_user_check) [username] s1) in
        fst (engine (sql apply_job_check) [jobId] (store db)) = Rows (j # js)
        \<and> fst (engine (sql apply_user_check) [username] s1) = Rows (u # us) \<longrightarrow>
      snd (User_applyToJob engine username jobId db) =
        \<lparr> store = snd (engine (sql apply_insert) [jobId, username] s2),
          issued = issued db @ [(apply_job_check, [jobId]), (apply_user_check, [username]),
                                (apply_insert, [jobId, username])] \<rparr>
      \<and> fst (User_applyToJob engine username jobId db) =
          (case fst (engine (sql apply_insert) [jobId, username] s2) of
             Fault msg \<Rightarrow> Inl (StorageFault msg)
           | Rows inserted \<Rightarrow> Inr ()))"
proof (intro conjI)
  show "fst (engine (sql apply_job_check) [jobId] (store db)) = Rows [] \<longrightarrow>
      User_applyToJob engine username jobId db =
        (Inl (NotFoundError (''No job: '' @ to_string jobId)),
         \<lparr> store = snd (engine (sql apply_job_check) [jobId] (store db)),
           issued = issued db @ [(apply_job_check, [jobId])] \<rparr>)"
  proof
    assume "fst (engine (sql apply_job_check) [jobId] (store db)) = Rows []"
    from engine_pair [OF this] show "User_applyToJob engine username jobId db =
        (Inl (NotFoundError (''No job: '' @ to_string jobId)),
         \<lparr> store = snd (engine (sql apply_job_check) [jobId] (store db)),
           issued = issued db @ [(apply_job_check, [jobId])] \<rparr>)"
      by (simp add: User_applyToJob_def bind_def throw_def db_query_Rows)
  qed
next
  define s1 where "s1 = snd (engine (sql apply_job_check) [jobId] (store db))"
  have "fst (engine (sql apply_job_check) [jobId] (store db)) = Rows (j # js)
        \<and> fst (engine (sql apply_user_check) [username] s1) = Rows [] \<longrightarrow>
      User_applyToJob engine username jobId db =
        (Inl (NotFoundError (''No username: '' @ to_string username)),
         \<lparr> store = snd (engine (sql apply_user_check) [username] s1),
           issued = issued db @ [(apply_job_check, [jobId]), (apply_user_check, [username])] \<rparr>)"
  proof
    assume a: "fst (engine (sql apply_job_check) [jobId] (store db)) = Rows (j # js)
        \<and> fst (engine (sql apply_user_check) [username] s1) = Rows []"
    have p1: "engine (sql apply_job_check) [jobId] (store db) = (Rows (j # js), s1)"
      using a engine_pair s1_def by metis
    have p2: "engine (sql apply_user_check) [username] s1 =
                (Rows [], snd (engine (sql apply_user_check) [username] s1))"
      using a engine_pair by metis
    have q1: "db_query engine apply_job_check [jobId] db =
        (Inr (map (project (columns apply_job_check)) (j # js)),
         \<lparr> store = s1, issued = issued db @ [(apply_job_check, [jobId])] \<rparr>)"
      using p1 by (rule db_query_Rows)
    have q2: "db_query engine apply_user_check [username]
                \<lparr> store = s1, issued = issued db @ [(apply_job_check, [jobId])] \<rparr> =
        (Inr (map (project (columns apply_user_check)) []),
         \<lparr> store = snd (engine (sql apply_user_check) [username] s1),
           issued = (issued db @ [(apply_job_check, [jobId])]) @ [(apply_user_check, [username])] \<rparr>)"
      using p2 db_query_Rows [of engine apply_user_check "[username]"
          "\<lparr> store = s1, issued = issued db @ [(apply_job_check, [jobId])] \<rparr>" "[]"]
      by simp
    show "User_applyToJob engine username jobId db =
        (Inl (NotFoundError (''No username: '' @ to_string username)),
         \<lparr> store = snd (engine (sql apply_user_check) [username] s1),
           issued = issued db @ [(apply_job_check, [jobId]), (apply_user_check, [username])] \<rparr>)"
      by (simp add: User_applyToJob_def bind_def throw_def q1 q2)
  qed
  then show "let s1 = snd (engine (sql apply_job_check) [jobId] (store db)) in
        fst (engine (sql apply_job_check) [jobId] (store db)) = Rows (j # js)
        \<and> fst (engine (sql apply_user_check) [username] s1) = Rows [] \<longrightarrow>
      User_applyToJob engine username jobId db =
        (Inl (NotFoundError (''No username: '' @ to_string username)),
         \<lparr> store = snd (engine (sql apply_user_check) [username] s1),
           issued = issued db @ [(apply_job_check, [jobId]), (apply_user_check, [username])] \<rparr>)"
    by (simp add: s1_def Let_def)
next
  define s1 where "s1 = snd (engine (sql apply_job_check) [jobId] (store db))"
  define s2 where "s2 = snd (engine (sql apply_user_check) [username] s1)"
  have "fst (engine (sql apply_job_check) [jobId] (store db)) = Rows (j # js)
        \<and> fst (engine (sql apply_user_check) [username] s1) = Rows (u # us) \<longrightarrow>
      snd (User_applyToJob engine username jobId db) =
        \<lparr> store = snd (engine (sql apply_insert) [jobId, username] s2),
          issued = issued db @ [(apply_job_check, [jobId]), (apply_user_check, [username]),
                                (apply_insert, [jobId, username])] \<rparr>
      \<and> fst (User_applyToJob engine username jobId db) =
          (case fst (engine (sql apply_insert) [jobId, username] s2) of
             Fault msg \<Rightarrow> Inl (StorageFault msg)
           | Rows inserted \<Rightarrow> Inr ())"
  proof
    assume a: "fst (engine (sql apply_job_check) [jobId] (store db)) = Rows (j # js)
        \<and> fst (engine (sql apply_user_check) [username] s1) = Rows (u # us)"
    have p1: "engine (sql apply_job_check) [jobId] (store db) = (Rows (j # js), s1)"
      using a engine_pair s1_def by metis
    have p2: "engine (sql apply_user_check) [username] s1 = (Rows (u # us), s2)"
      using a engine_pair s2_def by metis
    have q1: "db_query engine apply_job_check [jobId] db =
        (Inr (map (project (columns apply_job_check)) (j # js)),
         \<lparr> store = s1, issued = issued db @ [(apply_job_check, [jobId])] \<rparr>)"
      using p1 by (rule db_query_Rows)
    have q2: "db_query engine apply_user_check [username]
                \<lparr> store = s1, issued = issued db @ [(apply_job_check, [jobId])] \<rparr> =
        (Inr (map (project (columns apply_user_check)) (u # us)),
         \<lparr> store = s2,
           issued = (issued db @ [(apply_job_check, [jobId])]) @ [(apply_user_check, [username])] \<rparr>)"
      using p2 db_query_Rows [of engine apply_user_check "[username]"
          "\<lparr> store = s1, issued = issued db @ [(apply_job_check, [jobId])] \<rparr>" "u # us" s2]
      by simp
    show "snd (User_applyToJob engine username jobId db) =
        \<lparr> store = snd (engine (sql apply_insert) [jobId, username] s2),
          issued = issued db @ [(apply_job_check, [jobId]), (apply_user_check, [username]),
                                (apply_insert, [jobId, username])] \<rparr>
      \<and> fst (User_applyToJob engine username jobId db) =
          (case fst (engine (sql apply_insert) [jobId, username] s2) of
             Fault msg \<Rightarrow> Inl (StorageFault msg)
           | Rows inserted \<Rightarrow> Inr ())"
      by (simp add: User_applyToJob_def bind_def return_def q1 q2)
         (simp add: db_query_def return_def split: prod.split answer.split)
  qed
  then show "let s1 = snd (engine (sql apply_job_check) [jobId] (store db));
            s2 = snd (engine (sql apply_user_check) [username] s1) in
        fst (engine (sql apply_job_check) [jobId] (store db)) = Rows (j # js)
        \<and> fst (engine (sql apply_user_check) [username] s1) = Rows (u # us) \<longrightarrow>
      snd (User_applyToJob engine username jobId db) =
        \<lparr> store = snd (engine (sql apply_insert) [jobId, username] s2),
          issued = issued db @ [(apply_job_check, [jobId]), (apply_user_check, [username]),
                                (apply_insert, [jobId, username])] \<rparr>
      \<and> fst (User_applyToJob engine username jobId db) =
          (case fst (engine (sql apply_insert) [jobId, username] s2) of
             Fault msg \<Rightarrow> Inl (StorageFault msg)
           | Rows inserted \<Rightarrow> Inr ())"
    by (simp add: s1_def s2_def Let_def)
qed

text \<open>
  C8. \<open>User.applyToJob\<close> first probes the job. When that probe finds no row, the
  operation fails with \<open>NotFoundError\<close> and the probe is the only statement issued: the
  user is not probed and nothing is inserted. When the job is found and the probe of the
  user finds no row, the operation fails with \<open>NotFoundError\<close> after those two probes,
  and nothing is inserted. When both are found, the third and last statement is the
  \<open>INSERT\<close> of the pair into the applications table, with no probe for an existing
  application before it, and the operation succeeds unless the storage engine faults
  on the insert.
\<close>

theorem applyToJob_probes:
  "(fst (engine ''SELECT id FROM jobs WHERE id = $1'' [jobId] (store db)) = Rows [] \<longrightarrow>
      User_applyToJob engine username jobId db =
        (Inl (NotFoundError (''No job: '' @ to_string jobId)),
         \<lparr> store = snd (engine ''SELECT id FROM jobs WHERE id = $1'' [jobId] (store db)),
           issued = issued db @
            [(\<lparr> sql = ''SELECT id FROM jobs WHERE id = $1'',
                columns = [(''id'', ''id'')] \<rparr>, [jobId])] \<rparr>))
   \<and> (let s1 = snd (engine ''SELECT id FROM jobs WHERE id = $1'' [jobId] (store db)) in
        fst (engine ''SELECT id FROM jobs WHERE id = $1'' [jobId] (store db)) = Rows (j # js)
        \<and> fst (engine ''SELECT username FROM users WHERE username = $1'' [username] s1) = Rows [] \<longrightarrow>
      User_applyToJob engine username jobId db =
        (Inl (NotFoundError (''No username: '' @ to_string username)),
         \<lparr> store = snd (engine ''SELECT username FROM users WHERE username = $1'' [username] s1),
           issued = issued db @
            [(\<lparr> sql = ''SELECT id FROM jobs WHERE id = $1'',
                columns = [(''id'', ''id'')] \<rparr>, [jobId]),
             (\<lparr> sql = ''SELECT username FROM users WHERE username = $1'',
                columns = [(''username'', ''username'')] \<rparr>, [username])] \<rparr>))
   \<and> (let s1 = snd (engine ''SELECT id FROM jobs WHERE id = $1'' [jobId] (store db));
            s2 = snd (engine ''SELECT username FROM users WHERE username = $1'' [username] s1) in
        fst (engine ''SELECT id FROM jobs WHERE id = $1'' [jobId] (store db)) = Rows (j # js)
        \<and> fst (engine ''SELECT username FROM users WHERE username = $1'' [username] s1) = Rows (u # us) \<longrightarrow>
      snd (User_applyToJob engine username jobId db) =
        \<lparr> store = snd (engine ''INSERT INTO applications (job_id, username) VALUES ($1, $2)'' [jobId, username] s2),
          issued = issued db @
            [(\<lparr> sql = ''SELECT id FROM jobs WHERE id = $1'',
                columns = [(''id'', ''id'')] \<rparr>, [jobId]),
             (\<lparr> sql = ''SELECT username FROM users WHERE username = $1'',
                columns = [(''username'', ''username'')] \<rparr>, [username]),
             (\<lparr> sql = ''INSERT INTO applications (job_id, username) VALUES ($1, $2)'',
                columns = [] \<rparr>, [jobId, username])] \<rparr>
      \<and> fst (User_applyToJob engine username jobId db) =
          (case fst (engine ''INSERT INTO applications (job_id, username) VALUES ($1, $2)'' [jobId, username] s2) of
             Fault msg \<Rightarrow> Inl (StorageFault msg)
           | Rows inserted \<Rightarrow> Inr ()))"
  using applyToJob_steps
    [where engine = engine and jobId = jobId and db = db and username = username
       and j = j and js = js and u = u and us = us]
  by (simp add: apply_job_check_def apply_user_check_def apply_insert_def Let_def)

section \<open>Updating\<close>

text \<open>
  C7. For a payload with at least one entry, each of \<open>Job.update\<close>,
  \<open>Company.update\<close> and \<open>User.update\<close> builds its fragment, issues exactly one
  statement, whose predicate on the identity column uses the placeholder numbered one
  more than the number of values, and binds the values followed by the identity value,
  which is thus the last parameter and the one at the placeholder's position. The
  operation fails with \<open>NotFoundError\<close> exactly when the storage engine answers that
  statement with no row.
\<close>

theorem update_identity_parameter:
  assumes "data \<noteq> []"
  shows
   "(case sqlForPartialUpdate data Map.empty of
       Inl e \<Rightarrow> False
     | Inr r \<Rightarrow>
         issued (snd (Job_update engine id' data db))
           = issued db @ [(job_update_statement r, values r @ [id'])]
       \<and> sql (job_update_statement r)
           = ''UPDATE jobs SET '' @ setCols r @ '' WHERE id = $''
               @ nat_to_string (length (values r) + 1)
               @ '' RETURNING id, title, salary, equity, company_handle AS \"companyHandle\"''
       \<and> last (values r @ [id']) = id'
       \<and> (values r @ [id']) ! (length (values r) + 1 - 1) = id'
       \<and> ((\<exists>msg. fst (Job_update engine id' data db) = Inl (NotFoundError msg))
            \<longleftrightarrow> fst (engine (sql (job_update_statement r)) (values r @ [id']) (store db)) = Rows []))
    \<and> (case sqlForPartialUpdate data company_jsToSql of
       Inl e \<Rightarrow> False
     | Inr r \<Rightarrow>
         issued (snd (Company_update engine handle data db))
           = issued db @ [(company_update_statement r, values r @ [handle])]
       \<and> sql (company_update_statement r)
           = ''UPDATE companies SET '' @ setCols r @ '' WHERE handle = $''
               @ nat_to_string (length (values r) + 1)
               @ '' RETURNING handle, name, description, num_employees AS \"numEmployees\", logo_url AS \"logoUrl\"''
       \<and> last (values r @ [handle]) = handle
       \<and> (values r @ [handle]) ! (length (values r) + 1 - 1) = handle
       \<and> ((\<exists>msg. fst (Company_update engine handle data db) = Inl (NotFoundError msg))
            \<longleftrightarrow> fst (engine (sql (company_update_statement r)) (values r @ [handle]) (store db)) = Rows []))
    \<and> (case sqlForPartialUpdate (hash_password hash data) user_jsToSql of
       Inl e \<Rightarrow> False
     | Inr r \<Rightarrow>
         issued (snd (User_update engine hash username data db))
           = issued db @ [(user_update_statement r, values r @ [username])]
       \<and> sql (user_update_statement r)
           = ''UPDATE users SET '' @ setCols r @ '' WHERE username = $''
               @ nat_to_string (length (values r) + 1)
               @ '' RETURNING username, first_name AS \"firstName\", last_name AS \"lastName\", email, is_admin AS \"isAdmin\"''
       \<and> last (values r @ [username]) = username
       \<and> (values r @ [username]) ! (length (values r) + 1 - 1) = username
       \<and> ((\<exists>msg. fst (User_update engine hash username data db) = Inl (NotFoundError msg))
            \<longleftrightarrow> fst (engine (sql (user_update_statement r)) (values r @ [username]) (store db)) = Rows []))"
proof (intro conjI)
  show "case sqlForPartialUpdate data Map.empty of
       Inl e \<Rightarrow> False
     | Inr r \<Rightarrow>
         issued (snd (Job_update engine id' data db))
           = issued db @ [(job_update_statement r, values r @ [id'])]
       \<and> sql (job_update_statement r)
           = ''UPDATE jobs SET '' @ setCols r @ '' WHERE id = $''
               @ nat_to_string (length (values r) + 1)
               @ '' RETURNING id, title, salary, equity, company_handle AS \"companyHandle\"''
       \<and> last (values r @ [id']) = id'
       \<and> (values r @ [id']) ! (length (values r) + 1 - 1) = id'
       \<and> ((\<exists>msg. fst (Job_update engine id' data db) = Inl (NotFoundError msg))
            \<longleftrightarrow> fst (engine (sql (job_update_statement r)) (values r @ [id']) (store db)) = Rows [])"
    using update_tail [of engine _ _ _ "\<lambda>x. x" db]
    by (simp add: sqlForPartialUpdate_nonempty [OF assms] Job_update_def
          job_update_statement_def placeholder_def nth_append)
next
  show "case sqlForPartialUpdate data company_jsToSql of
       Inl e \<Rightarrow> False
     | Inr r \<Rightarrow>
         issued (snd (Company_update engine handle data db))
           = issued db @ [(company_update_statement r, values r @ [handle])]
       \<and> sql (company_update_statement r)
           = ''UPDATE companies SET '' @ setCols r @ '' WHERE handle = $''
               @ nat_to_string (length (values r) + 1)
               @ '' RETURNING handle, name, description, num_employees AS \"numEmployees\", logo_url AS \"logoUrl\"''
       \<and> last (values r @ [handle]) = handle
       \<and> (values r @ [handle]) ! (length (values r) + 1 - 1) = handle
       \<and> ((\<exists>msg. fst (Company_update engine handle data db) = Inl (NotFoundError msg))
            \<longleftrightarrow> fst (engine (sql (company_update_statement r)) (values r @ [handle]) (store db)) = Rows [])"
    using update_tail [of engine _ _ _ "\<lambda>x. x" db]
    by (simp add: sqlForPartialUpdate_nonempty [OF assms] Company_update_def
          company_update_statement_def placeholder_def nth_append)
next
  show "case sqlForPartialUpdate (hash_password hash data) user_jsToSql of
       Inl e \<Rightarrow> False
     | Inr r \<Rightarrow>
         issued (snd (User_update engine hash username data db))
           = issued db @ [(user_update_statement r, values r @ [username])]
       \<and> sql (user_update_statement r)
           = ''UPDATE users SET '' @ setCols r @ '' WHERE username = $''
               @ nat_to_string (length (values r) + 1)
               @ '' RETURNING username, first_name AS \"firstName\", last_name AS \"lastName\", email, is_admin AS \"isAdmin\"''
       \<and> last (values r @ [username]) = username
       \<and> (values r @ [username]) ! (length (values r) + 1 - 1) = username
       \<and> ((\<exists>msg. fst (User_update engine hash username data db) = Inl (NotFoundError msg))
            \<longleftrightarrow> fst (engine (sql (user_update_statement r)) (values r @ [username]) (store db)) = Rows [])"
    using update_tail [of engine _ _ _ "delete_prop ''password''" db]
    by (simp add: sqlForPartialUpdate_nonempty [OF hash_password_nonempty [OF assms]]
          User_update_def user_update_statement_def placeholder_def nth_append Let_def)
qed

section \<open>What a caller sees of a user\<close>

text \<open>
  C9. Whatever the storage engine answers and whatever the payload holds, a record that
  \<open>User.register\<close>, \<open>User.authenticate\<close> or \<open>User.update\<close> returns on success has
  no \<open>password\<close> field.
\<close>

theorem account_results_hide_password:
  "(User_register engine hash data db = (Inr registered, db_registered)
      \<longrightarrow> \<not> has_field registered ''password'')
   \<and> (User_authenticate engine compare username password db = (Inr authenticated, db_authenticated)
      \<longrightarrow> ''password'' \<notin> fst ` set authenticated)
   \<and> (User_update engine hash username data db = (Inr updated, db_updated)
      \<longrightarrow> ''password'' \<notin> fst ` set updated)"
proof (intro conjI impI)
  assume a: "User_register engine hash data db = (Inr registered, db_registered)"
  have "\<exists>raw. registered = first_row (map (project user_columns) raw)"
    using a
    by (auto simp: User_register_def bind_def throw_def return_def db_query_def user_insert_def
          split: prod.splits answer.splits if_splits sum.splits)
  then obtain raw where "registered = first_row (map (project user_columns) raw)" ..
  then show "\<not> has_field registered ''password''"
    using has_field_first_row_project [of user_columns raw "''password''"]
    by (auto simp: user_columns_def)
next
  assume "User_authenticate engine compare username password db = (Inr authenticated, db_authenticated)"
  then have "\<exists>user. authenticated = delete_prop ''password'' user"
    by (auto simp: User_authenticate_def bind_def throw_def return_def
          split: prod.splits list.splits if_splits sum.splits)
  then show "''password'' \<notin> fst ` set authenticated"
    using delete_prop_absent by blast
next
  assume "User_update engine hash username data db = (Inr updated, db_updated)"
  then have "\<exists>user. updated = delete_prop ''password'' user"
    by (auto simp: User_update_def bind_def throw_def return_def Let_def
          split: prod.splits list.splits if_splits sum.splits)
  then show "''password'' \<notin> fst ` set updated"
    using delete_prop_absent by blast
qed

section \<open>Reading a job\<close>

lemma job_companyHandle:
  "get_prop (project job_columns raw) ''companyHandle'' = column_value raw ''company_handle''"
  by (simp add: project_def job_columns_def get_prop_def js_get_def)

lemma job_record_shape:
  "set_prop ''company'' v (delete_prop ''companyHandle'' (project job_columns raw)) =
     [(''id'', column_value raw ''id''), (''title'', column_value raw ''title''),
      (''salary'', column_value raw ''salary''), (''equity'', column_value raw ''equity''),
      (''company'', v)]"
  by (simp add: project_def job_columns_def delete_prop_def set_prop_def)

lemma first_company_row:
  "first_row (map (project company_columns) companies) =
     (case companies of
        [] \<Rightarrow> JUndefined
      | c # cs \<Rightarrow>
          JObj [(''handle'', column_value c ''handle''), (''name'', column_value c ''name''),
                (''description'', column_value c ''description''),
                (''numEmployees'', column_value c ''num_employees''),
                (''logoUrl'', column_value c ''logo_url'')])"
  by (cases companies) (simp_all add: first_row_def project_def company_columns_def)

text \<open>The two reads of \<open>Job.get\<close> on a job that is found, and what they are made into.\<close>

lemma Job_get_found:
  assumes p1: "engine (sql job_select) [id'] (store db) = (Rows (raw # rest), s1)"
    and p2: "engine (sql job_company_select) [column_value raw ''company_handle''] s1 =
               (Rows companies, s2)"
  shows "Job_get engine id' db =
     (Inr [(''id'', column_value raw ''id''), (''title'', column_value raw ''title''),
           (''salary'', column_value raw ''salary''), (''equity'', column_value raw ''equity''),
           (''company'', first_row (map (project company_columns) companies))],
      \<lparr> store = s2,
        issued = issued db @ [(job_select, [id']),
                              (job_company_select, [column_value raw ''company_handle''])] \<rparr>)"
proof -
  have q1: "db_query engine job_select [id'] db =
      (Inr (map (project job_columns) (raw # rest)),
       \<lparr> store = s1, issued = issued db @ [(job_select, [id'])] \<rparr>)"
    using p1 db_query_Rows [of engine job_select "[id']" db "raw # rest" s1]
    by (simp add: job_select_def)
  have q2: "db_query engine job_company_select [column_value raw ''company_handle'']
               \<lparr> store = s1, issued = issued db @ [(job_select, [id'])] \<rparr> =
      (Inr (map (project company_columns) companies),
       \<lparr> store = s2,
         issued = (issued db @ [(job_select, [id'])])
                    @ [(job_company_select, [column_value raw ''company_handle''])] \<rparr>)"
    using p2 db_query_Rows [of engine job_company_select "[column_value raw ''company_handle'']"
        "\<lparr> store = s1, issued = issued db @ [(job_select, [id'])] \<rparr>" companies s2]
    by (simp add: job_company_select_def)
  show ?thesis
    by (simp add: Job_get_def bind_def return_def q1 q2 job_companyHandle job_record_shape)
qed

text \<open>
  C10, as amended. A record that \<open>Job.get\<close> returns never has the field
  \<open>companyHandle\<close> and always has the field \<open>company\<close>. When the primary read finds the
  job, the operation issues a second read, on the companies table, by the handle the
  primary read selected, and returns the row of the primary read without
  \<open>companyHandle\<close>, followed by \<open>company\<close>: the nested object of the company's five
  fields when the second read finds a row, and \<open>undefined\<close> when it finds none.
\<close>

theorem Job_get_company:
  "(Job_get engine id' db = (Inr job, db') \<longrightarrow>
      ''companyHandle'' \<notin> fst ` set job \<and> ''company'' \<in> fst ` set job)
   \<and> (fst (engine ''SELECT id, title, salary, equity, company_handle AS \"companyHandle\" FROM jobs WHERE id = $1''
               [id'] (store db)) = Rows (raw # rest)
      \<and> fst (engine ''SELECT handle, name, description, num_employees AS \"numEmployees\", logo_url AS \"logoUrl\" FROM companies WHERE handle = $1''
               [column_value raw ''company_handle'']
               (snd (engine ''SELECT id, title, salary, equity, company_handle AS \"companyHandle\" FROM jobs WHERE id = $1''
                       [id'] (store db)))) = Rows companies
      \<longrightarrow> fst (Job_get engine id' db) =
            Inr [(''id'', column_value raw ''id''), (''title'', column_value raw ''title''),
                 (''salary'', column_value raw ''salary''),
                 (''equity'', column_value raw ''equity''),
                 (''company'',
                  (case companies of
                     [] \<Rightarrow> JUndefined
                   | c # cs \<Rightarrow>
                       JObj [(''handle'', column_value c ''handle''),
                             (''name'', column_value c ''name''),
                             (''description'', column_value c ''description''),
                             (''numEmployees'', column_value c ''num_employees''),
                             (''logoUrl'', column_value c ''logo_url'')]))]
        \<and> map (\<lambda>q. (sql (fst q), snd q)) (issued (snd (Job_get engine id' db))) =
            map (\<lambda>q. (sql (fst q), snd q)) (issued db)
            @ [(''SELECT id, title, salary, equity, company_handle AS \"companyHandle\" FROM jobs WHERE id = $1'',
                [id']),
               (''SELECT handle, name, description, num_employees AS \"numEmployees\", logo_url AS \"logoUrl\" FROM companies WHERE handle = $1'',
                [column_value raw ''company_handle''])])"
proof (intro conjI impI)
  assume "Job_get engine id' db = (Inr job, db')"
  from Job_get_result [OF this] obtain v r
    where j: "job = set_prop ''company'' v (delete_prop ''companyHandle'' r)" by blast
  show "''companyHandle'' \<notin> fst ` set job"
    using delete_prop_absent [of "''companyHandle''" r] by (simp add: j set_prop_keys)
  show "''company'' \<in> fst ` set job"
    by (simp add: j set_prop_keys)
next
  assume a: "fst (engine ''SELECT id, title, salary, equity, company_handle AS \"companyHandle\" FROM jobs WHERE id = $1''
               [id'] (store db)) = Rows (raw # rest)
      \<and> fst (engine ''SELECT handle, name, description, num_employees AS \"numEmployees\", logo_url AS \"logoUrl\" FROM companies WHERE handle = $1''
               [column_value raw ''company_handle'']
               (snd (engine ''SELECT id, title, salary, equity, company_handle AS \"companyHandle\" FROM jobs WHERE id = $1''
                       [id'] (store db)))) = Rows companies"
  define s1 where "s1 = snd (engine (sql job_select) [id'] (store db))"
  define s2 where
    "s2 = snd (engine (sql job_company_select) [column_value raw ''company_handle''] s1)"
  have t1: "sql job_select =
      ''SELECT id, title, salary, equity, company_handle AS \"companyHandle\" FROM jobs WHERE id = $1''"
    by (simp add: job_select_def)
  have t2: "sql job_company_select =
      ''SELECT handle, name, description, num_employees AS \"numEmployees\", logo_url AS \"logoUrl\" FROM companies WHERE handle = $1''"
    by (simp add: job_company_select_def)
  have "fst (engine (sql job_select) [id'] (store db)) = Rows (raw # rest)"
    using a by (simp only: t1)
  then have p1: "engine (sql job_select) [id'] (store db) = (Rows (raw # rest), s1)"
    unfolding s1_def by (rule engine_pair)
  have "fst (engine (sql job_company_select) [column_value raw ''company_handle''] s1)
          = Rows companies"
    using a by (simp only: t1 t2 s1_def)
  then have p2: "engine (sql job_company_select) [column_value raw ''company_handle''] s1 =
               (Rows companies, s2)"
    unfolding s2_def by (rule engine_pair)
  note found = Job_get_found [OF p1 p2]
  show "fst (Job_get engine id' db) =
            Inr [(''id'', column_value raw ''id''), (''title'', column_value raw ''title''),
                 (''salary'', column_value raw ''salary''),
                 (''equity'', column_value raw ''equity''),
                 (''company'',
                  (case companies of
                     [] \<Rightarrow> JUndefined
                   | c # cs \<Rightarrow>
                       JObj [(''handle'', column_value c ''handle''),
                             (''name'', column_value c ''name''),
                             (''description'', column_value c ''description''),
                             (''numEmployees'', column_value c ''num_employees''),
                             (''logoUrl'', column_value c ''logo_url'')]))]"
    by (simp only: found fst_conv first_company_row)
  show "map (\<lambda>q. (sql (fst q), snd q)) (issued (snd (Job_get engine id' db))) =
            map (\<lambda>q. (sql (fst q), snd q)) (issued db)
            @ [(''SELECT id, title, salary, equity, company_handle AS \"companyHandle\" FROM jobs WHERE id = $1'',
                [id']),
               (''SELECT handle, name, description, num_employees AS \"numEmployees\", logo_url AS \"logoUrl\" FROM companies WHERE handle = $1'',
                [column_value raw ''company_handle''])]"
    by (simp add: found t1 t2)
qed

section \<open>Worked examples\<close>

text \<open>Unfolding rules for running the models on the sample engine.\<close>

lemmas sample_eval = sample_engine_def get_prop_def js_get_def object_prototype_def
  int_to_string_def
  nat_to_string.simps digit_char_def company_duplicate_check_def user_duplicate_check_def

lemmas object_eval = column_def js_or_def placeholder_def set_prop_def delete_prop_def
  column_value_def
  project_def first_row_def hash_password_def

text \<open>
  A company and a user whose identity is taken: each call stops after its probe.
\<close>

theorem create_duplicate_bad_request_witness:
  "Company_create
      (sample_engine [(''SELECT handle FROM companies WHERE handle = $1'', [[(''handle'', JStr ''acme'')]])] [])
      [(''handle'', JStr ''acme''), (''name'', JStr ''Acme''), (''numEmployees'', JNum 10)]
      \<lparr> store = 0, issued = [] \<rparr>
     = (Inl (BadRequestError ''Duplicate company: acme''),
        \<lparr> store = 1, issued = [(\<lparr> sql = ''SELECT handle FROM companies WHERE handle = $1'',
                columns = [(''handle'', ''handle'')] \<rparr>,
              [JStr ''acme''])] \<rparr>)
   \<and> User_register
      (sample_engine [(''SELECT username FROM users WHERE username = $1'', [[(''username'', JStr ''bob'')]])] [])
      (\<lambda>password. JStr ''hashed'')
      [(''username'', JStr ''bob''), (''password'', JStr ''secret'')]
      \<lparr> store = 0, issued = [] \<rparr>
     = (Inl (BadRequestError ''Duplicate username: bob''),
        \<lparr> store = 1, issued = [(\<lparr> sql = ''SELECT username FROM users WHERE username = $1'',
                columns = [(''username'', ''username'')] \<rparr>,
              [JStr ''bob''])] \<rparr>)"
  using
    create_duplicate_bad_request
      [where engine = "sample_engine [(''SELECT handle FROM companies WHERE handle = $1'', [[(''handle'', JStr ''acme'')]])] []"
         and company = "[(''handle'', JStr ''acme''), (''name'', JStr ''Acme''), (''numEmployees'', JNum 10)]"
         and db = "\<lparr> store = 0, issued = [] \<rparr>"
         and found = "[(''handle'', JStr ''acme'')]" and rest = "[]"]
    create_duplicate_bad_request
      [where engine = "sample_engine [(''SELECT username FROM users WHERE username = $1'', [[(''username'', JStr ''bob'')]])] []"
         and user = "[(''username'', JStr ''bob''), (''password'', JStr ''secret'')]"
         and hash = "\<lambda>password. JStr ''hashed''"
         and db = "\<lparr> store = 0, issued = [] \<rparr>"
         and taken = "[(''username'', JStr ''bob'')]" and others = "[]"]
  by (simp add: sample_eval)

text \<open>
  C2 as stated says the failure is a Conflict error. The source has no such error: the
  error raised for a taken handle or username is of the same class as the one raised for
  an update with no data.
\<close>

theorem create_duplicate_counterexample:
  "fst (Company_create
          (sample_engine [(''SELECT handle FROM companies WHERE handle = $1'',
                           [[(''handle'', JStr ''acme'')]])] [])
          [(''handle'', JStr ''acme''), (''name'', JStr ''Acme''), (''numEmployees'', JNum 10)]
          \<lparr> store = 0, issued = [] \<rparr>)
     = Inl (BadRequestError ''Duplicate company: acme'')
   \<and> fst (User_register
          (sample_engine [(''SELECT username FROM users WHERE username = $1'',
                           [[(''username'', JStr ''bob'')]])] [])
          (\<lambda>password. JStr ''hashed'')
          [(''username'', JStr ''bob''), (''password'', JStr ''secret'')]
          \<lparr> store = 0, issued = [] \<rparr>)
     = Inl (BadRequestError ''Duplicate username: bob'')
   \<and> sqlForPartialUpdate [] company_jsToSql = Inl (BadRequestError ''No data'')
   \<and> class_of (BadRequestError ''Duplicate company: acme'')
       = class_of (BadRequestError ''No data'')
   \<and> class_of (BadRequestError ''Duplicate username: bob'')
       = class_of (BadRequestError ''No data'')"
  by (simp add: sample_eval Company_create_def User_register_def bind_def throw_def
        db_query_def first_row_def project_def sqlForPartialUpdate_def)

text \<open>
  An application with no such job, with the job but no such user, and with both.
\<close>

theorem applyToJob_probes_witness:
  "User_applyToJob (sample_engine [] []) (JStr ''bob'') (JNum 7) \<lparr> store = 0, issued = [] \<rparr>
     = (Inl (NotFoundError ''No job: 7''),
        \<lparr> store = 1, issued = [(\<lparr> sql = ''SELECT id FROM jobs WHERE id = $1'', columns = [(''id'', ''id'')] \<rparr>,
                     [JNum 7])] \<rparr>)
   \<and> User_applyToJob (sample_engine [(''SELECT id FROM jobs WHERE id = $1'', [[(''id'', JNum 7)]])] [])
        (JStr ''bob'') (JNum 7) \<lparr> store = 0, issued = [] \<rparr>
     = (Inl (NotFoundError ''No username: bob''),
        \<lparr> store = 2,
          issued = [(\<lparr> sql = ''SELECT id FROM jobs WHERE id = $1'', columns = [(''id'', ''id'')] \<rparr>,
                     [JNum 7]), (\<lparr> sql = ''SELECT username FROM users WHERE username = $1'',
                       columns = [(''username'', ''username'')] \<rparr>,
                     [JStr ''bob''])] \<rparr>)
   \<and> User_applyToJob
        (sample_engine [(''SELECT id FROM jobs WHERE id = $1'', [[(''id'', JNum 7)]]),
                        (''SELECT username FROM users WHERE username = $1'', [[(''username'', JStr ''bob'')]])] [])
        (JStr ''bob'') (JNum 7) \<lparr> store = 0, issued = [] \<rparr>
     = (Inr (),
        \<lparr> store = 3,
          issued = [(\<lparr> sql = ''SELECT id FROM jobs WHERE id = $1'', columns = [(''id'', ''id'')] \<rparr>,
                     [JNum 7]), (\<lparr> sql = ''SELECT username FROM users WHERE username = $1'',
                       columns = [(''username'', ''username'')] \<rparr>,
                     [JStr ''bob'']),
                    (\<lparr> sql = ''INSERT INTO applications (job_id, username) VALUES ($1, $2)'',
                       columns = [] \<rparr>,
                     [JNum 7, JStr ''bob''])] \<rparr>)"
proof -
  let ?db = "\<lparr> store = 0::nat, issued = [] \<rparr>"
  have 1: "User_applyToJob (sample_engine [] []) (JStr ''bob'') (JNum 7) ?db
     = (Inl (NotFoundError ''No job: 7''),
        \<lparr> store = 1, issued = [(\<lparr> sql = ''SELECT id FROM jobs WHERE id = $1'', columns = [(''id'', ''id'')] \<rparr>,
                     [JNum 7])] \<rparr>)"
    using applyToJob_probes
      [where engine = "sample_engine [] []" and username = "JStr ''bob''" and jobId = "JNum 7"
         and db = ?db]
    by (simp add: sample_eval apply_job_check_def)
  have 2: "User_applyToJob (sample_engine [(''SELECT id FROM jobs WHERE id = $1'', [[(''id'', JNum 7)]])] [])
        (JStr ''bob'') (JNum 7) ?db
     = (Inl (NotFoundError ''No username: bob''),
        \<lparr> store = 2,
          issued = [(\<lparr> sql = ''SELECT id FROM jobs WHERE id = $1'', columns = [(''id'', ''id'')] \<rparr>,
                     [JNum 7]), (\<lparr> sql = ''SELECT username FROM users WHERE username = $1'',
                       columns = [(''username'', ''username'')] \<rparr>,
                     [JStr ''bob''])] \<rparr>)"
    using applyToJob_probes
      [where engine = "sample_engine [(''SELECT id FROM jobs WHERE id = $1'', [[(''id'', JNum 7)]])] []"
         and username = "JStr ''bob''" and jobId = "JNum 7" and db = ?db
         and j = "[(''id'', JNum 7)]" and js = "[]"]
    by (simp add: sample_eval apply_job_check_def apply_user_check_def Let_def)
  have 3: "User_applyToJob
        (sample_engine [(''SELECT id FROM jobs WHERE id = $1'', [[(''id'', JNum 7)]]),
                        (''SELECT username FROM users WHERE username = $1'', [[(''username'', JStr ''bob'')]])] [])
        (JStr ''bob'') (JNum 7) ?db
     = (Inr (),
        \<lparr> store = 3,
          issued = [(\<lparr> sql = ''SELECT id FROM jobs WHERE id = $1'', columns = [(''id'', ''id'')] \<rparr>,
                     [JNum 7]), (\<lparr> sql = ''SELECT username FROM users WHERE username = $1'',
                       columns = [(''username'', ''username'')] \<rparr>,
                     [JStr ''bob'']),
                    (\<lparr> sql = ''INSERT INTO applications (job_id, username) VALUES ($1, $2)'',
                       columns = [] \<rparr>,
                     [JNum 7, JStr ''bob''])] \<rparr>)"
    using applyToJob_probes
      [where engine = "sample_engine [(''SELECT id FROM jobs WHERE id = $1'', [[(''id'', JNum 7)]]),
                        (''SELECT username FROM users WHERE username = $1'', [[(''username'', JStr ''bob'')]])] []"
         and username = "JStr ''bob''" and jobId = "JNum 7" and db = ?db
         and j = "[(''id'', JNum 7)]" and js = "[]"
         and u = "[(''username'', JStr ''bob'')]" and us = "[]"]
    by (simp add: sample_eval apply_job_check_def apply_user_check_def apply_insert_def Let_def prod_eq_iff)
  from 1 2 3 show ?thesis by blast
qed

text \<open>
  An update of a job that is not there, of a company that is, and of a user's password.
\<close>

theorem update_identity_parameter_witness:
  "Job_update (sample_engine [] []) (JNum 7)
      [(''title'', JStr ''Clerk''), (''salary'', JNum 40000)] \<lparr> store = 0, issued = [] \<rparr>
     = (Inl (NotFoundError ''No job: 7''),
        \<lparr> store = 1,
          issued = [(\<lparr> sql = ''UPDATE jobs SET \"title\"=$1, \"salary\"=$2 WHERE id = $3 RETURNING id, title, salary, equity, company_handle AS \"companyHandle\"'',
                       columns = job_columns \<rparr>,
                     [JStr ''Clerk'', JNum 40000, JNum 7])] \<rparr>)
   \<and> Company_update
      (sample_engine [] [[(''handle'', JStr ''acme''), (''name'', JStr ''Acme''),
                          (''description'', JNull), (''num_employees'', JNum 12),
                          (''logo_url'', JNull)]])
      (JStr ''acme'') [(''numEmployees'', JNum 12)] \<lparr> store = 0, issued = [] \<rparr>
     = (Inr [(''handle'', JStr ''acme''), (''name'', JStr ''Acme''), (''description'', JNull),
             (''numEmployees'', JNum 12), (''logoUrl'', JNull)],
        \<lparr> store = 1,
          issued = [(\<lparr> sql = ''UPDATE companies SET \"num_employees\"=$1 WHERE handle = $2 RETURNING handle, name, description, num_employees AS \"numEmployees\", logo_url AS \"logoUrl\"'',
                       columns = company_columns \<rparr>,
                     [JNum 12, JStr ''acme''])] \<rparr>)
   \<and> User_update (sample_engine [] []) (\<lambda>password. JStr ''hashed'') (JStr ''bob'')
      [(''firstName'', JStr ''Bob''), (''password'', JStr ''secret'')]
      \<lparr> store = 0, issued = [] \<rparr>
     = (Inl (NotFoundError ''No user: bob''),
        \<lparr> store = 1,
          issued = [(\<lparr> sql = ''UPDATE users SET \"first_name\"=$1, \"password\"=$2 WHERE username = $3 RETURNING username, first_name AS \"firstName\", last_name AS \"lastName\", email, is_admin AS \"isAdmin\"'',
                       columns = user_columns \<rparr>,
                     [JStr ''Bob'', JStr ''hashed'', JStr ''bob''])] \<rparr>)"
proof -
  let ?db = "\<lparr> store = 0::nat, issued = [] \<rparr>"
  have d1: "[(''title'', JStr ''Clerk''), (''salary'', JNum 40000)] \<noteq> []" by simp
  have d2: "[(''numEmployees'', JNum 12)] \<noteq> []" by simp
  have d3: "[(''firstName'', JStr ''Bob''), (''password'', JStr ''secret'')] \<noteq> []" by simp
  have 1: "Job_update (sample_engine [] []) (JNum 7)
      [(''title'', JStr ''Clerk''), (''salary'', JNum 40000)] ?db
     = (Inl (NotFoundError ''No job: 7''),
        \<lparr> store = 1,
          issued = [(\<lparr> sql = ''UPDATE jobs SET \"title\"=$1, \"salary\"=$2 WHERE id = $3 RETURNING id, title, salary, equity, company_handle AS \"companyHandle\"'',
                       columns = job_columns \<rparr>,
                     [JStr ''Clerk'', JNum 40000, JNum 7])] \<rparr>)"
    using update_identity_parameter
      [OF d1, where engine = "sample_engine [] []" and id' = "JNum 7" and db = ?db]
    by (simp add: sample_eval object_eval sqlForPartialUpdate_nonempty Job_update_def
          job_update_statement_def bind_def throw_def db_query_def)
  have 2: "Company_update
      (sample_engine [] [[(''handle'', JStr ''acme''), (''name'', JStr ''Acme''),
                          (''description'', JNull), (''num_employees'', JNum 12),
                          (''logo_url'', JNull)]])
      (JStr ''acme'') [(''numEmployees'', JNum 12)] ?db
     = (Inr [(''handle'', JStr ''acme''), (''name'', JStr ''Acme''), (''description'', JNull),
             (''numEmployees'', JNum 12), (''logoUrl'', JNull)],
        \<lparr> store = 1,
          issued = [(\<lparr> sql = ''UPDATE companies SET \"num_employees\"=$1 WHERE handle = $2 RETURNING handle, name, description, num_employees AS \"numEmployees\", logo_url AS \"logoUrl\"'',
                       columns = company_columns \<rparr>,
                     [JNum 12, JStr ''acme''])] \<rparr>)"
    using update_identity_parameter
      [OF d2, where engine = "sample_engine [] [[(''handle'', JStr ''acme''), (''name'', JStr ''Acme''),
                          (''description'', JNull), (''num_employees'', JNum 12),
                          (''logo_url'', JNull)]]" and handle = "JStr ''acme''" and db = ?db]
    by (simp add: sample_eval object_eval sqlForPartialUpdate_nonempty Company_update_def
          company_update_statement_def company_jsToSql_def company_columns_def
          bind_def return_def db_query_def)
  have 3: "User_update (sample_engine [] []) (\<lambda>password. JStr ''hashed'') (JStr ''bob'')
      [(''firstName'', JStr ''Bob''), (''password'', JStr ''secret'')] ?db
     = (Inl (NotFoundError ''No user: bob''),
        \<lparr> store = 1,
          issued = [(\<lparr> sql = ''UPDATE users SET \"first_name\"=$1, \"password\"=$2 WHERE username = $3 RETURNING username, first_name AS \"firstName\", last_name AS \"lastName\", email, is_admin AS \"isAdmin\"'',
                       columns = user_columns \<rparr>,
                     [JStr ''Bob'', JStr ''hashed'', JStr ''bob''])] \<rparr>)"
    using update_identity_parameter
      [OF d3, where engine = "sample_engine [] []" and hash = "\<lambda>password. JStr ''hashed''"
         and username = "JStr ''bob''" and db = ?db]
    by (simp add: sample_eval object_eval sqlForPartialUpdate_nonempty User_update_def
          user_update_statement_def user_jsToSql_def bind_def throw_def db_query_def)
  from 1 2 3 show ?thesis by blast
qed

text \<open>
  Registering, authenticating and updating a user whose stored row carries the hashed
  password.
\<close>

theorem account_results_hide_password_witness:
  "fst (User_register (sample_engine [(sql user_duplicate_check, [])] [sample_user])
         (\<lambda>password. JStr ''hashed'')
         [(''username'', JStr ''bob''), (''password'', JStr ''secret''),
          (''firstName'', JStr ''Bob''), (''lastName'', JStr ''Lee''),
          (''email'', JStr ''bob@example.org''), (''isAdmin'', JBool False)]
         \<lparr> store = 0, issued = [] \<rparr>)
     = Inr (JObj [(''username'', JStr ''bob''), (''firstName'', JStr ''Bob''),
                  (''lastName'', JStr ''Lee''), (''email'', JStr ''bob@example.org''),
                  (''isAdmin'', JBool False)])
   \<and> \<not> has_field (JObj [(''username'', JStr ''bob''), (''firstName'', JStr ''Bob''),
                  (''lastName'', JStr ''Lee''), (''email'', JStr ''bob@example.org''),
                  (''isAdmin'', JBool False)]) ''password''
   \<and> fst (User_authenticate (sample_engine [] [sample_user])
         (\<lambda>password stored. password = JStr ''secret'' \<and> stored = JStr ''hashed'')
         (JStr ''bob'') (JStr ''secret'') \<lparr> store = 0, issued = [] \<rparr>)
     = Inr [(''username'', JStr ''bob''), (''firstName'', JStr ''Bob''),
            (''lastName'', JStr ''Lee''), (''email'', JStr ''bob@example.org''),
            (''isAdmin'', JBool False)]
   \<and> fst (User_update (sample_engine [] [sample_user]) (\<lambda>password. JStr ''hashed'')
         (JStr ''bob'') [(''password'', JStr ''secret'')] \<lparr> store = 0, issued = [] \<rparr>)
     = Inr [(''username'', JStr ''bob''), (''firstName'', JStr ''Bob''),
            (''lastName'', JStr ''Lee''), (''email'', JStr ''bob@example.org''),
            (''isAdmin'', JBool False)]
   \<and> ''password'' \<notin> fst ` set [(''username'', JStr ''bob''), (''firstName'', JStr ''Bob''),
            (''lastName'', JStr ''Lee''), (''email'', JStr ''bob@example.org''),
            (''isAdmin'', JBool False)]"
proof -
  let ?db = "\<lparr> store = 0::nat, issued = [] \<rparr>"
  let ?shown = "[(''username'', JStr ''bob''), (''firstName'', JStr ''Bob''),
            (''lastName'', JStr ''Lee''), (''email'', JStr ''bob@example.org''),
            (''isAdmin'', JBool False)]"
  let ?reg = "User_register (sample_engine [(sql user_duplicate_check, [])] [sample_user])
         (\<lambda>password. JStr ''hashed'')
         [(''username'', JStr ''bob''), (''password'', JStr ''secret''),
          (''firstName'', JStr ''Bob''), (''lastName'', JStr ''Lee''),
          (''email'', JStr ''bob@example.org''), (''isAdmin'', JBool False)] ?db"
  let ?auth = "User_authenticate (sample_engine [] [sample_user])
         (\<lambda>password stored. password = JStr ''secret'' \<and> stored = JStr ''hashed'')
         (JStr ''bob'') (JStr ''secret'') ?db"
  let ?upd = "User_update (sample_engine [] [sample_user]) (\<lambda>password. JStr ''hashed'')
         (JStr ''bob'') [(''password'', JStr ''secret'')] ?db"
  have r: "fst ?reg = Inr (JObj ?shown)"
    by (simp add: sample_eval object_eval User_register_def user_insert_def user_columns_def
          sample_user_def bind_def return_def db_query_def)
  have a: "fst ?auth = Inr ?shown"
    by (simp add: sample_eval object_eval User_authenticate_def user_authenticate_select_def
          sample_user_def bind_def return_def db_query_def)
  have u: "fst ?upd = Inr ?shown"
    by (simp add: sample_eval object_eval User_update_def user_update_statement_def user_columns_def
          user_jsToSql_def sqlForPartialUpdate_nonempty
          sample_user_def bind_def return_def db_query_def)
  have r': "?reg = (Inr (JObj ?shown), snd ?reg)" using r by (simp add: prod_eq_iff)
  have a': "?auth = (Inr ?shown, snd ?auth)" using a by (simp add: prod_eq_iff)
  have u': "?upd = (Inr ?shown, snd ?upd)" using u by (simp add: prod_eq_iff)
  have "\<not> has_field (JObj ?shown) ''password''" and "''password'' \<notin> fst ` set ?shown"
    using account_results_hide_password
      [where engine = "sample_engine [(sql user_duplicate_check, [])] [sample_user]"
         and hash = "\<lambda>password. JStr ''hashed''"
         and data = "[(''username'', JStr ''bob''), (''password'', JStr ''secret''),
          (''firstName'', JStr ''Bob''), (''lastName'', JStr ''Lee''),
          (''email'', JStr ''bob@example.org''), (''isAdmin'', JBool False)]"
         and db = ?db and registered = "JObj ?shown" and db_registered = "snd ?reg"]
      account_results_hide_password
      [where engine = "sample_engine [] [sample_user]"
         and compare = "\<lambda>password stored. password = JStr ''secret'' \<and> stored = JStr ''hashed''"
         and username = "JStr ''bob''" and password = "JStr ''secret''"
         and db = ?db and authenticated = ?shown and db_authenticated = "snd ?auth"]
      account_results_hide_password
      [where engine = "sample_engine [] [sample_user]"
         and hash = "\<lambda>password. JStr ''hashed''"
         and username = "JStr ''bob''" and data = "[(''password'', JStr ''secret'')]"
         and db = ?db and updated = ?shown and db_updated = "snd ?upd"]
      r' a' u'
    by blast+
  with r a u show ?thesis by blast
qed

text \<open>A job whose company is found.\<close>

theorem Job_get_company_witness:
  "fst (Job_get (sample_engine [(sql job_select, [sample_job]),
                                (sql job_company_select, [sample_company])] [])
         (JNum 7) \<lparr> store = 0, issued = [] \<rparr>)
     = Inr [(''id'', JNum 7), (''title'', JStr ''Clerk''), (''salary'', JNum 40000),
            (''equity'', JStr ''0''),
            (''company'',
             JObj [(''handle'', JStr ''acme''), (''name'', JStr ''Acme''),
                   (''description'', JNull), (''numEmployees'', JNum 10),
                   (''logoUrl'', JNull)])]
   \<and> ''companyHandle'' \<notin> fst ` set
         [(''id'', JNum 7), (''title'', JStr ''Clerk''), (''salary'', JNum 40000),
          (''equity'', JStr ''0''),
          (''company'',
           JObj [(''handle'', JStr ''acme''), (''name'', JStr ''Acme''),
                 (''description'', JNull), (''numEmployees'', JNum 10),
                 (''logoUrl'', JNull)])]
   \<and> map (\<lambda>q. (sql (fst q), snd q))
         (issued (snd (Job_get (sample_engine [(sql job_select, [sample_job]),
                                (sql job_company_select, [sample_company])] [])
            (JNum 7) \<lparr> store = 0, issued = [] \<rparr>)))
     = [(''SELECT id, title, salary, equity, company_handle AS \"companyHandle\" FROM jobs WHERE id = $1'',
         [JNum 7]),
        (''SELECT handle, name, description, num_employees AS \"numEmployees\", logo_url AS \"logoUrl\" FROM companies WHERE handle = $1'',
         [JStr ''acme''])]"
proof -
  let ?engine = "sample_engine [(sql job_select, [sample_job]),
                                (sql job_company_select, [sample_company])] []"
  let ?db = "\<lparr> store = 0::nat, issued = [] \<rparr>"
  let ?job = "[(''id'', JNum 7), (''title'', JStr ''Clerk''), (''salary'', JNum 40000),
          (''equity'', JStr ''0''),
          (''company'',
           JObj [(''handle'', JStr ''acme''), (''name'', JStr ''Acme''),
                 (''description'', JNull), (''numEmployees'', JNum 10),
                 (''logoUrl'', JNull)])]"
  have found: "fst (Job_get ?engine (JNum 7) ?db) = Inr ?job
     \<and> map (\<lambda>q. (sql (fst q), snd q)) (issued (snd (Job_get ?engine (JNum 7) ?db)))
     = [(''SELECT id, title, salary, equity, company_handle AS \"companyHandle\" FROM jobs WHERE id = $1'',
         [JNum 7]),
        (''SELECT handle, name, description, num_employees AS \"numEmployees\", logo_url AS \"logoUrl\" FROM companies WHERE handle = $1'',
         [JStr ''acme''])]"
    using Job_get_company
      [where engine = ?engine and id' = "JNum 7" and db = ?db
         and raw = sample_job and rest = "[]" and companies = "[sample_company]"]
    by (simp add: sample_eval column_value_def sample_job_def sample_company_def
          job_select_def job_company_select_def)
  then have "Job_get ?engine (JNum 7) ?db = (Inr ?job, snd (Job_get ?engine (JNum 7) ?db))"
    by (simp add: prod_eq_iff)
  then have "''companyHandle'' \<notin> fst ` set ?job"
    using Job_get_company
      [where engine = ?engine and id' = "JNum 7" and db = ?db and job = ?job
         and db' = "snd (Job_get ?engine (JNum 7) ?db)"]
    by blast
  with found show ?thesis by blast
qed

text \<open>
  C10 as stated fails for a job whose handle has no row in the companies table: the job
  is found, and the record returned holds \<open>undefined\<close> under \<open>company\<close>, not a company
  object.
\<close>

theorem Job_get_company_counterexample:
  "fst (sample_engine [(sql job_select, [sample_job])] []
          ''SELECT id, title, salary, equity, company_handle AS \"companyHandle\" FROM jobs WHERE id = $1''
          [JNum 7] 0) = Rows [sample_job]
   \<and> fst (Job_get (sample_engine [(sql job_select, [sample_job])] [])
         (JNum 7) \<lparr> store = 0, issued = [] \<rparr>)
     = Inr [(''id'', JNum 7), (''title'', JStr ''Clerk''), (''salary'', JNum 40000),
            (''equity'', JStr ''0''), (''company'', JUndefined)]
   \<and> \<not> has_field JUndefined ''handle''"
  by (simp add: sample_eval object_eval Job_get_def job_select_def job_company_select_def
        job_columns_def project_def first_row_def sample_job_def bind_def return_def
        db_query_def)

end
